theory Spec2Isabelle
  imports Complex_Main "HOL-Library.AList"
begin

section \<open>Python values shared by the models\<close>

text \<open>
  Exceptions of the Python source are values of type \<open>error\<close>; a function that can raise
  returns \<open>error + 'a\<close> with \<open>Inl\<close> for the exception.
\<close>

datatype error =
    AssertionError
  | ZeroDivisionError
  | KeyError string
  | ValueError
  | IndexError
  | NameError
  | TypeError
  | RuntimeError
  | StopIteration
  | SystemExit int

text \<open>
  \<open>LearnerListenerStatus\<close> is imported by \<open>learner.py\<close> from \<open>xpmir.learning.learner\<close>;
  the three members below are the ones the listeners return.
\<close>

datatype LearnerListenerStatus = NO_DECISION | STOP | DONT_STOP

text \<open>
  A Python \<open>dict\<close> is an association list in insertion order with distinct keys:
  \<open>d[k]\<close> and \<open>d.get(k)\<close> are \<open>map_of d k\<close>, \<open>d[k] = v\<close> is \<open>AList.update k v d\<close>
  (replace in place, or append a new key), \<open>d.items()\<close> is the list itself.
\<close>

text \<open>Python's \<open>a % b\<close> on integers: floored, and \<open>ZeroDivisionError\<close> for \<open>b = 0\<close>.\<close>

definition py_mod :: "int \<Rightarrow> int \<Rightarrow> error + int" where
  "py_mod a b = (if b = 0 then Inl ZeroDivisionError else Inr (a mod b))"

text \<open>Python's \<open>max\<close> of an iterable: \<open>ValueError\<close> on an empty one.\<close>

fun py_max :: "int list \<Rightarrow> error + int" where
  "py_max [] = Inl ValueError"
| "py_max (x # xs) = Inr (fold max xs x)"

text \<open>Python's \<open>xs[i]\<close> on a list of length \<open>n\<close>: the position read, or \<open>IndexError\<close>.\<close>

definition py_index :: "nat \<Rightarrow> int \<Rightarrow> error + nat" where
  "py_index n i =
     (let j = (if i < 0 then int n + i else i)
      in if 0 \<le> j \<and> j < int n then Inr (nat j) else Inl IndexError)"

section \<open>learner.py: ValidationListener\<close>

text \<open>An entry of the best-so-far table \<open>self.top\<close>: \<open>{"value": ..., "epoch": ...}\<close>.\<close>

record top_info =
  top_value :: real
  top_epoch :: int

text \<open>
  The listener: its parameters, the table \<open>top\<close>, the epoch of its context
  (\<open>self.context.epoch\<close>), and what it has written: for each metric the snapshot copied to
  \<open>bestpath / metric\<close> (named by the context epoch it was copied at), the snapshot under
  \<open>last_checkpoint_path\<close>, and the content of the \<open>info\<close> file.
\<close>

record ValidationListener =
  metrics :: "(string \<times> bool) list"
  warmup :: int
  store_last_checkpoint :: bool
  validation_interval :: int
  early_stop :: int
  top :: "(string \<times> top_info) list"
  context_epoch :: int
  bestpath :: "(string \<times> int) list"
  last_checkpoint_path :: "int option"
  info :: "(string \<times> top_info) list option"

text \<open>\<open>__validate__\<close>: the assertion on \<open>early_stop % validation_interval\<close>.\<close>

definition validate :: "ValidationListener \<Rightarrow> error + unit" where
  "validate l =
     (case py_mod (early_stop l) (validation_interval l) of
        Inl e \<Rightarrow> Inl e
      | Inr r \<Rightarrow> if r = 0 then Inr () else Inl AssertionError)"

text \<open>
  \<open>initialize\<close>, as far as the table is concerned: \<open>top\<close> is what \<open>json.load\<close> reads
  from the \<open>info\<close> file, and the empty dictionary when opening or reading it raises
  (\<open>loaded = None\<close>).
\<close>

definition ValidationListener_initialize ::
  "ValidationListener \<Rightarrow> (string \<times> top_info) list option \<Rightarrow> ValidationListener" where
  "ValidationListener_initialize l loaded =
     l\<lparr>top := (case loaded of None \<Rightarrow> [] | Some t \<Rightarrow> t)\<rparr>"

text \<open>
  The generator \<open>info["epoch"] for key, info in self.top.items() if self.metrics[key]\<close>:
  \<open>self.metrics[key]\<close> raises \<open>KeyError\<close> for a recorded metric that is not configured.
\<close>

fun kept_epochs :: "(string \<times> bool) list \<Rightarrow> (string \<times> top_info) list \<Rightarrow> error + int list" where
  "kept_epochs ms [] = Inr []"
| "kept_epochs ms ((key, entry) # rest) =
     (case map_of ms key of
        None \<Rightarrow> Inl (KeyError key)
      | Some keep \<Rightarrow>
          (case kept_epochs ms rest of
             Inl e \<Rightarrow> Inl e
           | Inr eps \<Rightarrow> Inr (if keep then top_epoch entry # eps else eps)))"

text \<open>
  \<open>should_stop(epoch=0)\<close>. \<open>epoch or self.context.epoch\<close> is the context's epoch when
  \<open>epoch\<close> is 0.
\<close>

definition should_stop :: "ValidationListener \<Rightarrow> int \<Rightarrow> error + LearnerListenerStatus" where
  "should_stop l epoch =
     (if early_stop l > 0 \<and> top l \<noteq> [] then
        (case kept_epochs (metrics l) (top l) of
           Inl e \<Rightarrow> Inl e
         | Inr eps \<Rightarrow>
             (case py_max eps of
                Inl e \<Rightarrow> Inl e
              | Inr m \<Rightarrow>
                  (let epochs_since_imp = (if epoch \<noteq> 0 then epoch else context_epoch l) - m
                   in if epochs_since_imp \<ge> early_stop l then Inr STOP else Inr DONT_STOP)))
      else Inr DONT_STOP)"

text \<open>
  The loop \<open>for metric, keep in self.metrics.items()\<close> of \<open>__call__\<close>, on the pair of the
  table \<open>top\<close> and the best checkpoints. \<open>means\<close> is the first result of \<open>evaluate\<close>;
  the telemetry written to \<open>context.writer\<close> is not part of the model.
\<close>

fun update_top ::
  "int \<Rightarrow> int \<Rightarrow> int \<Rightarrow> (string \<rightharpoonup> real) \<Rightarrow> (string \<times> bool) list \<Rightarrow>
   (string \<times> top_info) list \<times> (string \<times> int) list \<Rightarrow>
   error + ((string \<times> top_info) list \<times> (string \<times> int) list)" where
  "update_top state_epoch wu ctx means [] tb = Inr tb"
| "update_top state_epoch wu ctx means ((metric, keep) # ms) (tp, bp) =
     (case means metric of
        None \<Rightarrow> Inl (KeyError metric)
      | Some v \<Rightarrow>
          if state_epoch \<ge> wu \<and>
             (case map_of tp metric of None \<Rightarrow> True | Some topstate \<Rightarrow> v > top_value topstate)
          then update_top state_epoch wu ctx means ms
                 (AList.update metric \<lparr>top_value = v, top_epoch = ctx\<rparr> tp,
                  if keep then AList.update metric ctx bp else bp)
          else update_top state_epoch wu ctx means ms (tp, bp))"

text \<open>\<open>__call__(state)\<close>, with \<open>state.epoch\<close> and the result of \<open>evaluate\<close> as arguments.\<close>

definition ValidationListener_call ::
  "ValidationListener \<Rightarrow> int \<Rightarrow> (string \<rightharpoonup> real) \<Rightarrow>
   error + (LearnerListenerStatus \<times> ValidationListener)" where
  "ValidationListener_call l state_epoch means =
     (case should_stop l (state_epoch - 1) of
        Inl e \<Rightarrow> Inl e
      | Inr STOP \<Rightarrow> Inr (STOP, l)
      | Inr _ \<Rightarrow>
          (case py_mod state_epoch (validation_interval l) of
             Inl e \<Rightarrow> Inl e
           | Inr r \<Rightarrow>
               if r = 0 then
                 (case update_top state_epoch (warmup l) (context_epoch l) means (metrics l)
                         (top l, bestpath l) of
                    Inl e \<Rightarrow> Inl e
                  | Inr (tp, bp) \<Rightarrow>
                      (let l' = l\<lparr>top := tp, bestpath := bp,
                                  last_checkpoint_path :=
                                    (if store_last_checkpoint l then Some (context_epoch l)
                                     else last_checkpoint_path l),
                                  info := Some tp\<rparr>
                       in case should_stop l' 0 of
                            Inl e \<Rightarrow> Inl e
                          | Inr s \<Rightarrow> Inr (s, l')))
               else
                 (case should_stop l 0 of
                    Inl e \<Rightarrow> Inl e
                  | Inr s \<Rightarrow> Inr (s, l))))"

text \<open>
  The epochs of the recorded bests of the metrics whose flag in \<open>metrics\<close> is true, as
  the early-stop rule of the specification names them.
\<close>

definition kept_best_epochs :: "ValidationListener \<Rightarrow> int list" where
  "kept_best_epochs l =
     map (\<lambda>(key, entry). top_epoch entry)
       (filter (\<lambda>(key, entry). map_of (metrics l) key = Some True) (top l))"

text \<open>A listener with the default parameters, metric \<open>map\<close> kept, and nothing recorded.\<close>

definition listener0 :: ValidationListener where
  "listener0 =
     \<lparr>metrics = [(''map'', True)], warmup = - 1, store_last_checkpoint = False,
      validation_interval = 1, early_stop = 0, top = [], context_epoch = 0,
      bestpath = [], last_checkpoint_path = None, info = None\<rparr>"

text \<open>
  The configuration of the early-stop example: \<open>validation_interval = 2\<close>,
  \<open>early_stop = 4\<close>, and the best of \<open>map\<close> recorded last at epoch 4 (after the bests of
  epochs 0 and 2, which it replaced).
\<close>

definition listener_map4 :: ValidationListener where
  "listener_map4 =
     listener0\<lparr>validation_interval := 2, early_stop := 4,
       top := [(''map'', \<lparr>top_value = 0.5, top_epoch = 4\<rparr>)]\<rparr>"

text \<open>
  A listener with \<open>early_stop = 1\<close> whose best of \<open>map\<close> is of epoch 0, in a context
  that has reached epoch 1: the state in which \<open>__call__\<close> asks \<open>should_stop(1 - 1)\<close>.
\<close>

definition listener_epoch1 :: ValidationListener where
  "listener_epoch1 =
     listener0\<lparr>early_stop := 1, context_epoch := 1,
       top := [(''map'', \<lparr>top_value = 0.5, top_epoch = 0\<rparr>)]\<rparr>"

text \<open>
  A listener that monitors \<open>map\<close> without keeping its checkpoint, after a first
  validation.
\<close>

definition listener_unkept :: ValidationListener where
  "listener_unkept =
     listener0\<lparr>metrics := [(''map'', False)], early_stop := 1, context_epoch := 5,
       top := [(''map'', \<lparr>top_value = 0.5, top_epoch = 0\<rparr>)]\<rparr>"

text \<open>
  What one pass of the loop of \<open>__call__\<close> may do to the entry of metric \<open>m\<close>: replace
  it by the new mean, recorded at the context's epoch, when that mean is greater than the
  value stored before.
\<close>

definition improved ::
  "(string \<rightharpoonup> real) \<Rightarrow> int \<Rightarrow> (string \<times> top_info) list \<Rightarrow> (string \<times> top_info) list \<Rightarrow>
   string \<Rightarrow> bool" where
  "improved means ctx tp tp' m \<longleftrightarrow>
     (\<exists>v. means m = Some v \<and> map_of tp' m = Some \<lparr>top_value = v, top_epoch = ctx\<rparr> \<and>
          (\<forall>old. map_of tp m = Some old \<longrightarrow> top_value old < v))"

text \<open>
  The listener after a first validation at epoch 1 with mean 0.5, and after a later one
  at epoch 3 with mean 0.6.
\<close>

definition validated_a :: ValidationListener where
  "validated_a =
     listener0\<lparr>context_epoch := 1,
       top := [(''map'', \<lparr>top_value = 0.5, top_epoch = 1\<rparr>)], bestpath := [(''map'', 1)],
       info := Some [(''map'', \<lparr>top_value = 0.5, top_epoch = 1\<rparr>)]\<rparr>"

definition validated_b :: ValidationListener where
  "validated_b =
     listener0\<lparr>context_epoch := 3,
       top := [(''map'', \<lparr>top_value = 0.6, top_epoch = 3\<rparr>)], bestpath := [(''map'', 3)],
       info := Some [(''map'', \<lparr>top_value = 0.6, top_epoch = 3\<rparr>)]\<rparr>"

section \<open>learner.py: NegativeSamplerListener\<close>

record NegativeSamplerListener =
  sampling_interval :: int
  change :: bool
  sampler_index :: int

text \<open>
  Modelled from the spec: the class \<open>ListwiseSerializableIterator\<close> of
  \<open>xpmir.utils.iter\<close>, which is not among the sources: it holds an ordered list of
  iterators and a current index, and \<open>set_current(i)\<close> makes iterator \<open>i\<close> the one that
  services \<open>next\<close>. Of an object the model keeps the current index. The objects that
  exist are a list, and an object is named by its place in the list.
\<close>

record ListwiseSerializableIterator =
  current :: int

definition set_current ::
  "ListwiseSerializableIterator list \<Rightarrow> nat \<Rightarrow> int \<Rightarrow> ListwiseSerializableIterator list" where
  "set_current objects a i = objects[a := (objects ! a)\<lparr>current := i\<rparr>]"

text \<open>
  \<open>PairwiseListSamplers.pairwise_iter\<close> of \<open>samplers.py\<close>: every call builds a new
  \<open>ListwiseSerializableIterator\<close>, over new iterators of the sub-samplers, and returns
  it. The index that a new object starts with is the parameter \<open>initial\<close>.
\<close>

definition PairwiseListSamplers_pairwise_iter ::
  "int \<Rightarrow> ListwiseSerializableIterator list \<Rightarrow> nat \<times> ListwiseSerializableIterator list" where
  "PairwiseListSamplers_pairwise_iter initial objects =
     (length objects, objects @ [\<lparr>current = initial\<rparr>])"

text \<open>
  The calls the listener makes on the sampler of the trainer:
  \<open>sampler.pairwise_iter().set_current(i)\<close> and \<open>sampler.samplers[i].update()\<close>, the
  latter with the position of the list that \<open>i\<close> reads.
\<close>

datatype sampler_call = SetCurrent int | Update nat

text \<open>\<open>initialize\<close>: \<open>self.change = True\<close>, \<open>self.sampler_index = 0\<close>.\<close>

definition NegativeSamplerListener_initialize ::
  "NegativeSamplerListener \<Rightarrow> NegativeSamplerListener" where
  "NegativeSamplerListener_initialize l = l\<lparr>change := True, sampler_index := 0\<rparr>"

text \<open>
  \<open>__call__(state)\<close>, for a \<open>PairwiseListSamplers\<close> with \<open>n\<close> sub-samplers,
  \<open>state.epoch\<close> and the iterator objects that exist: the status, the listener
  afterwards and the calls made, in order, or the exception; and the objects afterwards.
\<close>

definition NegativeSamplerListener_call ::
  "int \<Rightarrow> nat \<Rightarrow> NegativeSamplerListener \<Rightarrow> int \<Rightarrow> ListwiseSerializableIterator list \<Rightarrow>
   (error + (LearnerListenerStatus \<times> NegativeSamplerListener \<times> sampler_call list)) \<times>
   ListwiseSerializableIterator list" where
  "NegativeSamplerListener_call initial n l state_epoch objects =
     (case py_mod state_epoch (sampling_interval l) of
        Inl e \<Rightarrow> (Inl e, objects)
      | Inr r \<Rightarrow>
          if r = 0 then
            (let (l1, calls, objects1) =
               (if change l
                then
                  (let index = sampler_index l + 1;
                       (a, created) = PairwiseListSamplers_pairwise_iter initial objects
                   in (l\<lparr>sampler_index := index, change := False\<rparr>,
                       [SetCurrent index],
                       set_current created a index))
                else (l, [], objects))
             in case py_index n (sampler_index l1) of
                  Inl e \<Rightarrow> (Inl e, objects1)
                | Inr i \<Rightarrow> (Inr (NO_DECISION, l1, calls @ [Update i]), objects1))
          else (Inr (NO_DECISION, l, []), objects))"

text \<open>
  Modelled from the spec: the loop of the Learner (\<open>xpmir.learning.learner\<close>, not among
  the sources), which invokes the listener once per completed epoch, in order. The log
  pairs each call on the sampler with the epoch that made it.
\<close>

fun NegativeSamplerListener_run ::
  "int \<Rightarrow> nat \<Rightarrow> NegativeSamplerListener \<Rightarrow> int list \<Rightarrow> ListwiseSerializableIterator list \<Rightarrow>
   (error + (NegativeSamplerListener \<times> (int \<times> sampler_call) list)) \<times>
   ListwiseSerializableIterator list" where
  "NegativeSamplerListener_run initial n l [] objects = (Inr (l, []), objects)"
| "NegativeSamplerListener_run initial n l (e # es) objects =
     (case NegativeSamplerListener_call initial n l e objects of
        (Inl err, objects1) \<Rightarrow> (Inl err, objects1)
      | (Inr (status, l1, calls), objects1) \<Rightarrow>
          (case NegativeSamplerListener_run initial n l1 es objects1 of
             (Inl err, objects2) \<Rightarrow> (Inl err, objects2)
           | (Inr (l2, rest), objects2) \<Rightarrow> (Inr (l2, map (Pair e) calls @ rest), objects2)))"

section \<open>samplers.py: PairwiseInBatchNegativesSampler\<close>

text \<open>\<open>torch.eye(n)\<close>, \<open>torch.zeros(r, c)\<close> and \<open>torch.cat((a, b), 1)\<close> on lists of rows.\<close>

definition eye :: "nat \<Rightarrow> real list list" where
  "eye n = map (\<lambda>i. map (\<lambda>j. if i = j then 1 else 0) [0..<n]) [0..<n]"

definition zeros :: "nat \<Rightarrow> nat \<Rightarrow> real list list" where
  "zeros r c = replicate r (replicate c 0)"

definition cat1 :: "real list list \<Rightarrow> real list list \<Rightarrow> real list list" where
  "cat1 a b = map2 (@) a b"

text \<open>The matrix \<open>relevances\<close> that \<open>iter\<close> computes before its loop.\<close>

definition in_batch_relevances :: "nat \<Rightarrow> real list list" where
  "in_batch_relevances batch_size = cat1 (eye batch_size) (zeros batch_size batch_size)"

record ('q, 'd) PairwiseRecord =
  query :: 'q
  positive :: 'd
  negative :: 'd

record ('q, 'd) ProductRecords =
  queries :: "'q list"
  documents :: "'d list"
  relevances :: "real list list"

text \<open>
  The generator \<open>iter(pair_iter)\<close>: created and not yet run, or suspended at its
  \<open>yield\<close> with the local \<open>relevances\<close> alive. The iterator state holds the generator,
  what is left of \<open>pair_iter\<close>, and how many times the matrix has been computed.
\<close>

datatype generator = Created | Suspended "real list list"

record ('q, 'd) batchwise_state =
  gen :: generator
  pair_iter :: "('q, 'd) PairwiseRecord list"
  matrices_computed :: nat

text \<open>
  One \<open>next\<close> on the generator of \<open>batchwise_iter(batch_size)\<close>. A created generator
  first runs the code before \<open>while True\<close>. \<open>zip(range(batch_size), pair_iter)\<close> takes
  \<open>batch_size\<close> records, or those that are left.
\<close>

definition batchwise_next ::
  "nat \<Rightarrow> ('q, 'd) batchwise_state \<Rightarrow> ('q, 'd) ProductRecords \<times> ('q, 'd) batchwise_state" where
  "batchwise_next batch_size it =
     (let (m, computed) =
            (case gen it of
               Created \<Rightarrow> (in_batch_relevances batch_size, matrices_computed it + 1)
             | Suspended m \<Rightarrow> (m, matrices_computed it));
          records = take batch_size (pair_iter it)
      in (\<lparr>queries = map query records,
           documents = map positive records @ map negative records,
           relevances = m\<rparr>,
          it\<lparr>gen := Suspended m, pair_iter := drop batch_size (pair_iter it),
             matrices_computed := computed\<rparr>))"

text \<open>The first \<open>n\<close> batches of the iterator.\<close>

fun batchwise_take ::
  "nat \<Rightarrow> nat \<Rightarrow> ('q, 'd) batchwise_state \<Rightarrow>
   ('q, 'd) ProductRecords list \<times> ('q, 'd) batchwise_state" where
  "batchwise_take batch_size 0 it = ([], it)"
| "batchwise_take batch_size (Suc n) it =
     (let (b, it1) = batchwise_next batch_size it;
          (bs, it2) = batchwise_take batch_size n it1
      in (b # bs, it2))"

text \<open>\<open>batchwise_iter(batch_size)\<close> over the records of the pairwise sampler.\<close>

definition batchwise_iter :: "('q, 'd) PairwiseRecord list \<Rightarrow> ('q, 'd) batchwise_state" where
  "batchwise_iter records = \<lparr>gen = Created, pair_iter = records, matrices_computed = 0\<rparr>"

text \<open>A pairwise record numbered \<open>i\<close>, for the examples.\<close>

definition record_of :: "nat \<Rightarrow> (nat, nat) PairwiseRecord" where
  "record_of i = \<lparr>query = i, positive = 10 + i, negative = 20 + i\<rparr>"

section \<open>samplers.py: the retrieval-based samplers\<close>

text \<open>
  The collaborators, as data: \<open>dataset.assessments.iter()\<close> gives for each topic its
  id and its judgements \<open>(docno, rel)\<close>; \<open>dataset.topics.iter()\<close> gives the queries
  \<open>(qid, text)\<close>; \<open>retriever.retrieve(text)\<close> gives the scored documents
  \<open>(docid, score)\<close> in rank order.
\<close>

type_synonym qrels = "string \<times> (string \<times> int) list"

type_synonym topic = "string \<times> string"

type_synonym scored_document = "string \<times> real"

text \<open>The loops that read the assessments into the dictionary \<open>assessments\<close>.\<close>

definition read_doc2rel :: "(string \<times> int) list \<Rightarrow> (string \<times> int) list" where
  "read_doc2rel qrel_list = fold (\<lambda>(docno, rel) doc2rel. AList.update docno rel doc2rel) qrel_list []"

definition read_assessments :: "qrels list \<Rightarrow> (string \<times> (string \<times> int) list) list" where
  "read_assessments qrels_iter =
     fold (\<lambda>(qid, qrel_list) assessments. AList.update qid (read_doc2rel qrel_list) assessments)
       qrels_iter []"

text \<open>\<open>qassessments.get(docid, 0)\<close>.\<close>

definition get_rel :: "(string \<times> int) list \<Rightarrow> string \<Rightarrow> int" where
  "get_rel qassessments docid = (case map_of qassessments docid of None \<Rightarrow> 0 | Some rel \<Rightarrow> rel)"

text \<open>The two loops of \<open>_itertopics\<close> that fill \<open>positives\<close> and \<open>negatives\<close>.\<close>

fun itertopics_positives ::
  "(string \<times> int) list \<Rightarrow> (string \<times> int \<times> real) list \<Rightarrow> (string \<times> int \<times> real) list" where
  "itertopics_positives [] positives = positives"
| "itertopics_positives ((docno, rel) # items) positives =
     (if rel > 0 then itertopics_positives items (positives @ [(docno, rel, 0)])
      else itertopics_positives items positives)"

fun itertopics_negatives ::
  "(string \<times> int) list \<Rightarrow> scored_document list \<Rightarrow> (string \<times> int \<times> real) list \<Rightarrow>
   (string \<times> int \<times> real) list" where
  "itertopics_negatives qassessments [] negatives = negatives"
| "itertopics_negatives qassessments ((docid, score) # sds) negatives =
     (let rel = get_rel qassessments docid
      in if rel > 0 then itertopics_negatives qassessments sds negatives
         else itertopics_negatives qassessments sds (negatives @ [(docid, rel, score)]))"

text \<open>
  The body of the loop over the queries in \<open>_itertopics\<close>: \<open>None\<close> when the topic is
  skipped, the yielded triple otherwise; the final \<open>assert\<close> fails on an empty list of
  negatives.
\<close>

definition itertopics_query ::
  "(string \<times> (string \<times> int) list) list \<Rightarrow> (string \<Rightarrow> scored_document list) \<Rightarrow> topic \<Rightarrow>
   error + (string \<times> (string \<times> int \<times> real) list \<times> (string \<times> int \<times> real) list) option" where
  "itertopics_query assessments retrieve qry =
     (case map_of assessments (fst qry) of
        None \<Rightarrow> Inr None
      | Some qassessments \<Rightarrow>
          if qassessments = [] then Inr None
          else
            (let positives = itertopics_positives qassessments []
             in if positives = [] then Inr None
                else
                  (let scoreddocuments = retrieve (snd qry);
                       negatives = itertopics_negatives qassessments scoreddocuments []
                   in if negatives = [] then Inl AssertionError
                      else Inr (Some (snd qry, positives, negatives)))))"

text \<open>
  \<open>_itertopics\<close> over the list of queries that its loop runs through (all the
  topics, or the sample that \<open>random.sample\<close> took of them): the triples yielded and the
  number of topics skipped.
\<close>

fun itertopics_loop ::
  "(string \<times> (string \<times> int) list) list \<Rightarrow> (string \<Rightarrow> scored_document list) \<Rightarrow> topic list \<Rightarrow>
   error + ((string \<times> (string \<times> int \<times> real) list \<times> (string \<times> int \<times> real) list) list \<times> nat)" where
  "itertopics_loop assessments retrieve [] = Inr ([], 0)"
| "itertopics_loop assessments retrieve (qry # rest) =
     (case itertopics_query assessments retrieve qry of
        Inl e \<Rightarrow> Inl e
      | Inr y \<Rightarrow>
          (case itertopics_loop assessments retrieve rest of
             Inl e \<Rightarrow> Inl e
           | Inr (ys, skipped) \<Rightarrow>
               (case y of None \<Rightarrow> Inr (ys, skipped + 1) | Some t \<Rightarrow> Inr (t # ys, skipped))))"

definition itertopics ::
  "qrels list \<Rightarrow> (string \<Rightarrow> scored_document list) \<Rightarrow> topic list \<Rightarrow>
   error + ((string \<times> (string \<times> int \<times> real) list \<times> (string \<times> int \<times> real) list) list \<times> nat)" where
  "itertopics qrels_iter retrieve topics =
     itertopics_loop (read_assessments qrels_iter) retrieve topics"

subsection \<open>ModelBasedHardNegativeSampler.execute\<close>

text \<open>The loop over the ranked documents that fills \<open>positives\<close> and \<open>negatives\<close>.\<close>

fun execute_split ::
  "(string \<times> int) list \<Rightarrow> scored_document list \<Rightarrow> string list \<times> string list \<Rightarrow>
   string list \<times> string list" where
  "execute_split qassessments [] pn = pn"
| "execute_split qassessments ((docid, score) # sds) (positives, negatives) =
     (if get_rel qassessments docid > 0
      then execute_split qassessments sds (positives @ [docid], negatives)
      else execute_split qassessments sds (positives, negatives @ [docid]))"

text \<open>Python's \<open>sep.join(xs)\<close>, and the tab character.\<close>

fun join :: "string \<Rightarrow> string list \<Rightarrow> string" where
  "join sep [] = []"
| "join sep [x] = x"
| "join sep (x # y # ys) = x @ sep @ join sep (y # ys)"

definition tab :: string where
  "tab = [CHR 0x09]"

text \<open>
  The body of the loop over the queries in \<open>execute\<close>: \<open>None\<close> when the topic is
  skipped, otherwise the string passed to \<open>fp.write\<close>. The first field of the string
  is \<open>qrels.qid\<close>, where \<open>qrels\<close> is the variable of the loop that read the
  assessments: after that loop it holds the last element read, and it is unbound when
  there was none.
\<close>

definition execute_query ::
  "string option \<Rightarrow> (string \<times> (string \<times> int) list) list \<Rightarrow> (string \<Rightarrow> scored_document list) \<Rightarrow>
   topic \<Rightarrow> error + string option" where
  "execute_query qrels_qid assessments retrieve qry =
     (case map_of assessments (fst qry) of
        None \<Rightarrow> Inr None
      | Some qassessments \<Rightarrow>
          if qassessments = [] then Inr None
          else
            (let scoreddocuments = retrieve (snd qry);
                 (positives, negatives) = execute_split qassessments scoreddocuments ([], [])
             in if positives = [] then Inr None
                else if negatives = [] then Inr None
                else
                  (case qrels_qid of
                     None \<Rightarrow> Inl NameError
                   | Some qid \<Rightarrow>
                       Inr (Some (qid @ tab @ ''positives:'' @ tab @ join '' '' positives @ tab @
                                  ''negatives:'' @ tab @ join '' '' negatives)))))"

fun execute_loop ::
  "string option \<Rightarrow> (string \<times> (string \<times> int) list) list \<Rightarrow> (string \<Rightarrow> scored_document list) \<Rightarrow>
   topic list \<Rightarrow> error + (string list \<times> nat)" where
  "execute_loop qrels_qid assessments retrieve [] = Inr ([], 0)"
| "execute_loop qrels_qid assessments retrieve (qry # rest) =
     (case execute_query qrels_qid assessments retrieve qry of
        Inl e \<Rightarrow> Inl e
      | Inr w \<Rightarrow>
          (case execute_loop qrels_qid assessments retrieve rest of
             Inl e \<Rightarrow> Inl e
           | Inr (ws, skipped) \<Rightarrow>
               (case w of None \<Rightarrow> Inr (ws, skipped + 1) | Some line \<Rightarrow> Inr (line # ws, skipped))))"

text \<open>
  \<open>execute\<close>: the strings written to the file, in order, and the number of topics
  skipped. The content of the file is the concatenation of the strings.
\<close>

definition execute ::
  "qrels list \<Rightarrow> topic list \<Rightarrow> (string \<Rightarrow> scored_document list) \<Rightarrow> error + (string list \<times> nat)" where
  "execute qrels_iter topics retrieve =
     execute_loop (if qrels_iter = [] then None else Some (fst (last qrels_iter)))
       (read_assessments qrels_iter) retrieve topics"

text \<open>
  The judgements and the ranking of the hard-negative example, and an input of
  \<open>execute\<close> with two assessed topics.
\<close>

definition judgements_ex :: "(string \<times> int) list" where
  "judgements_ex = [(''d1'', 1), (''d2'', 0), (''d3'', - 1)]"

definition retrieved_ex :: "scored_document list" where
  "retrieved_ex = [(''d1'', 3), (''d2'', 2), (''d4'', 1)]"

definition qrels_two :: "qrels list" where
  "qrels_two = [(''q1'', [(''d1'', 1), (''d2'', 0)]), (''q2'', [(''d5'', 1)])]"

definition topics_two :: "topic list" where
  "topics_two = [(''q1'', ''first query''), (''q2'', ''second query'')]"

definition retrieve_two :: "string \<Rightarrow> scored_document list" where
  "retrieve_two text =
     (if text = ''first query'' then [(''d1'', 2), (''d2'', 1)] else [(''d5'', 2), (''d6'', 1)])"

section \<open>trainers/pointwise.py and distillation/pairwise.py: train_batch\<close>

text \<open>
  An entry of a score tensor: a finite number, or one of the three values that
  \<open>torch.isnan\<close> and \<open>torch.isinf\<close> detect.
\<close>

datatype score = Finite real | NaN | PosInf | NegInf

fun isnan :: "score \<Rightarrow> bool" where
  "isnan NaN = True"
| "isnan _ = False"

fun isinf :: "score \<Rightarrow> bool" where
  "isinf PosInf = True"
| "isinf NegInf = True"
| "isinf _ = False"

text \<open>
  \<open>PointwiseTrainer.train_batch\<close> on the batch that \<open>next(self.train_iter)\<close> returns.
  The ranker, the loss function and the relevances of a batch are parameters;
  \<open>sys.exit(1)\<close> raises \<open>SystemExit(1)\<close>.
\<close>

definition PointwiseTrainer_train_batch ::
  "('b \<Rightarrow> score list) \<Rightarrow> (score list \<Rightarrow> real list \<Rightarrow> 'l) \<Rightarrow> ('b \<Rightarrow> real list) \<Rightarrow> 'b \<Rightarrow>
   error + 'l" where
  "PointwiseTrainer_train_batch ranker lossfn batch_relevances batch =
     (let rel_scores = ranker batch
      in if list_ex isnan rel_scores \<or> list_ex isinf rel_scores then Inl (SystemExit 1)
         else
           (let target_relscores = map (\<lambda>r. if r = - 999 then 0 else r) (batch_relevances batch)
            in Inr (lossfn rel_scores target_relscores)))"

text \<open>
  A \<open>PairwiseDistillationSample\<close>: the query and two documents, each with its
  content and the score of the teacher.
\<close>

record ('q, 'c) PairwiseDistillationSample =
  sample_query :: 'q
  sample_documents :: "('c \<times> real) \<times> ('c \<times> real)"

text \<open>\<open>t.reshape(2, n).T\<close> of a flat tensor: \<open>n\<close> rows of two entries.\<close>

definition reshape_2_T :: "nat \<Rightarrow> score list \<Rightarrow> error + score list list" where
  "reshape_2_T n t =
     (if length t = 2 * n then Inr (map (\<lambda>i. [t ! i, t ! (n + i)]) [0..<n])
      else Inl RuntimeError)"

text \<open>
  \<open>DistillationPairwiseTrainer.train_batch(samples)\<close>. The hooks are functions to the
  loss they add to the context: the distillation hooks see the scores and the scores of
  the teacher, the pairwise hooks the scores, the pointwise hooks the scores and the
  target whose rows are \<open>[1, 0]\<close>. The result is the list of the losses added.
\<close>

definition DistillationPairwiseTrainer_train_batch ::
  "(('q, 'c) PairwiseRecord list \<Rightarrow> score list) \<Rightarrow>
   (score list list \<Rightarrow> real list list \<Rightarrow> 'l) list \<Rightarrow>
   (score list list \<Rightarrow> 'l) list \<Rightarrow>
   (score list list \<Rightarrow> real list list \<Rightarrow> 'l) list \<Rightarrow>
   ('q, 'c) PairwiseDistillationSample list \<Rightarrow> error + 'l list" where
  "DistillationPairwiseTrainer_train_batch ranker distillation_hooks pairwise_hooks
       pointwise_hooks samples =
     (let teacher_scores =
            map (\<lambda>s. [snd (fst (sample_documents s)), snd (snd (sample_documents s))]) samples;
          records =
            map (\<lambda>s. \<lparr>query = sample_query s, positive = fst (fst (sample_documents s)),
                       negative = fst (snd (sample_documents s))\<rparr>) samples
      in case reshape_2_T (length records) (ranker records) of
           Inl e \<Rightarrow> Inl e
         | Inr scores \<Rightarrow>
             if list_ex (list_ex isnan) scores \<or> list_ex (list_ex isinf) scores
             then Inl (SystemExit 1)
             else
               Inr (map (\<lambda>hook. hook scores teacher_scores) distillation_hooks @
                    map (\<lambda>hook. hook scores) pairwise_hooks @
                    map (\<lambda>hook. hook scores (replicate (length scores) [1, 0])) pointwise_hooks))"

text \<open>
  Modelled from the spec: the loop of the Learner over the batches of a run
  (\<open>xpmir.learning.learner\<close> and the base class \<open>Trainer\<close> are not among the sources):
  it runs the step on each batch in turn, and an exception of the step ends it. The
  result pairs the batches on which the step was run with the losses, or with the
  exception.
\<close>

fun train_batches :: "('b \<Rightarrow> error + 'l) \<Rightarrow> 'b list \<Rightarrow> 'b list \<times> (error + 'l list)" where
  "train_batches train_batch [] = ([], Inr [])"
| "train_batches train_batch (b # bs) =
     (case train_batch b of
        Inl e \<Rightarrow> ([b], Inl e)
      | Inr loss \<Rightarrow>
          (case train_batches train_batch bs of
             (done, Inl e) \<Rightarrow> (b # done, Inl e)
           | (done, Inr losses) \<Rightarrow> (b # done, Inr (loss # losses))))"

text \<open>A scorer that returns NaN on batch 3 and a finite score on every other batch.\<close>

definition ranker_nan3 :: "nat \<Rightarrow> score list" where
  "ranker_nan3 batch = (if batch = 3 then [Finite 1, NaN] else [Finite 1, Finite 0])"

definition mean_loss :: "score list \<Rightarrow> real list \<Rightarrow> nat" where
  "mean_loss rel_scores target_relscores = length rel_scores"

section \<open>samplers.py: the serializable iterators of the pairwise samplers\<close>

text \<open>
  \<open>numpy.random.RandomState\<close> is a value \<open>'g\<close>: \<open>get_state()\<close> returns it and
  \<open>set_state(s)\<close> replaces it. One draw \<open>randint(n)\<close> is a parameter
  \<open>randint :: 'g \<Rightarrow> nat \<Rightarrow> nat \<times> 'g\<close> that gives the number drawn and the next state.
  \<open>xs[random.randint(len(xs))]\<close> raises \<open>ValueError\<close> on an empty list.
\<close>

definition random_choice :: "('g \<Rightarrow> nat \<Rightarrow> nat \<times> 'g) \<Rightarrow> 'g \<Rightarrow> 'a list \<Rightarrow> error + ('a \<times> 'g)" where
  "random_choice randint g xs =
     (if xs = [] then Inl ValueError
      else (let (i, g') = randint g (length xs)
            in if i < length xs then Inr (xs ! i, g') else Inl IndexError))"

subsection \<open>PairwiseDatasetTripletBasedSampler\<close>

text \<open>
  An iterator is a state \<open>'s\<close> with a function \<open>next\<close> that gives an item and the
  state afterwards, or raises. The iterator of a list raises \<open>StopIteration\<close> at its end.
\<close>

definition list_next :: "'a list \<Rightarrow> error + ('a \<times> 'a list)" where
  "list_next xs = (case xs of [] \<Rightarrow> Inl StopIteration | x # rest \<Rightarrow> Inr (x, rest))"

text \<open>Drawing \<open>n\<close> items: the items and the state afterwards.\<close>

fun take_n :: "('s \<Rightarrow> error + ('a \<times> 's)) \<Rightarrow> nat \<Rightarrow> 's \<Rightarrow> error + ('a list \<times> 's)" where
  "take_n nxt 0 s = Inr ([], s)"
| "take_n nxt (Suc n) s =
     (case nxt s of
        Inl e \<Rightarrow> Inl e
      | Inr (x, s1) \<Rightarrow>
          (case take_n nxt n s1 of
             Inl e \<Rightarrow> Inl e
           | Inr (xs, s2) \<Rightarrow> Inr (x # xs, s2)))"

text \<open>
  Modelled from the spec: the class \<open>SkippingIterator\<close> of \<open>xpmir.utils.iter\<close>, which is
  not among the sources. It holds the underlying iterator and the count of the items it
  has produced; its state is that count; loading a state advances the underlying
  iterator past that many items, which are dropped.
\<close>

record 's SkippingIterator =
  iterator :: 's
  position :: nat

definition SkippingIterator_next ::
  "('s \<Rightarrow> error + ('a \<times> 's)) \<Rightarrow> ('s, 'z) SkippingIterator_scheme \<Rightarrow>
   error + ('a \<times> ('s, 'z) SkippingIterator_scheme)" where
  "SkippingIterator_next nxt it =
     (case nxt (iterator it) of
        Inl e \<Rightarrow> Inl e
      | Inr (x, s) \<Rightarrow> Inr (x, it\<lparr>iterator := s, position := position it + 1\<rparr>))"

definition SkippingIterator_state_dict :: "('s, 'z) SkippingIterator_scheme \<Rightarrow> nat" where
  "SkippingIterator_state_dict it = position it"

fun advance :: "('s \<Rightarrow> error + ('a \<times> 's)) \<Rightarrow> nat \<Rightarrow> 's \<Rightarrow> error + 's" where
  "advance nxt 0 s = Inr s"
| "advance nxt (Suc n) s =
     (case nxt s of
        Inl e \<Rightarrow> Inl e
      | Inr (x, s1) \<Rightarrow> advance nxt n s1)"

definition SkippingIterator_load_state_dict ::
  "('s \<Rightarrow> error + ('a \<times> 's)) \<Rightarrow> ('s, 'z) SkippingIterator_scheme \<Rightarrow> nat \<Rightarrow>
   error + ('s, 'z) SkippingIterator_scheme" where
  "SkippingIterator_load_state_dict nxt it count =
     (case advance nxt count (iterator it) of
        Inl e \<Rightarrow> Inl e
      | Inr s \<Rightarrow> Inr (it\<lparr>iterator := s, position := count\<rparr>))"

text \<open>
  A \<open>PairwiseSample\<close> as \<open>PairwiseSampleDatasetFromTSV.iter\<close> builds it,
  \<open>PairwiseSample(query, positives, negatives)\<close>: the query and two lists of document
  ids.
\<close>

record ('q, 'd) PairwiseSample =
  ps_query :: 'q
  ps_positives :: "'d list"
  ps_negatives :: "'d list"

text \<open>Python's \<open>s.split(sep)\<close> for a separator of one character.\<close>

fun split_on :: "char \<Rightarrow> string \<Rightarrow> string list" where
  "split_on sep [] = [[]]"
| "split_on sep (c # cs) =
     (if c = sep then [] # split_on sep cs
      else (case split_on sep cs of
              [] \<Rightarrow> [[c]]
            | w # ws \<Rightarrow> (c # w) # ws))"

text \<open>
  The body of the loop of \<open>PairwiseSampleDatasetFromTSV.iter\<close> on one row of the file:
  fields 0, 2 and 4 of the row; a row with fewer fields raises \<open>IndexError\<close>.
\<close>

definition sample_of_row :: "string list \<Rightarrow> error + (string, string) PairwiseSample" where
  "sample_of_row triplet =
     (if length triplet < 5 then Inl IndexError
      else Inr \<lparr>ps_query = triplet ! 0,
                ps_positives = split_on CHR '' '' (triplet ! 2),
                ps_negatives = split_on CHR '' '' (triplet ! 4)\<rparr>)"

text \<open>
  The class \<open>_Iterator\<close> of \<open>pairwise_iter\<close>: a \<open>SkippingIterator\<close> over the iterator
  of the dataset, with a random state.
\<close>

record ('a, 'g) Iterator = "'a list SkippingIterator" +
  random :: 'g

text \<open>\<open>_Iterator(random, iterator)\<close>.\<close>

definition Iterator_init :: "'g \<Rightarrow> 'a list \<Rightarrow> ('a, 'g) Iterator" where
  "Iterator_init g source = \<lparr>iterator = source, position = 0, random = g\<rparr>"

text \<open>\<open>state_dict\<close>: \<open>{"random": self.random.get_state(), **super().state_dict()}\<close>.\<close>

definition Iterator_state_dict :: "('a, 'g) Iterator \<Rightarrow> 'g \<times> nat" where
  "Iterator_state_dict it = (random it, SkippingIterator_state_dict it)"

text \<open>\<open>load_state_dict\<close>: the state of the base class, then \<open>self.random.set_state\<close>.\<close>

definition Iterator_load_state_dict ::
  "('a, 'g) Iterator \<Rightarrow> 'g \<times> nat \<Rightarrow> error + ('a, 'g) Iterator" where
  "Iterator_load_state_dict it state =
     (case SkippingIterator_load_state_dict list_next it (snd state) of
        Inl e \<Rightarrow> Inl e
      | Inr it1 \<Rightarrow> Inr (it1\<lparr>random := fst state\<rparr>))"

text \<open>
  \<open>next\<close>: the next sample of the base class, then the draw of \<open>pos\<close>, then
  \<open>all_negatives = sample.negatives().values()\<close> and
  \<open>all_negatives[self.random.randint(len(all_negatives))]\<close>. The attribute
  \<open>negatives\<close> of a sample is a list, and a call of it raises \<open>TypeError\<close>; the values
  view of a dictionary is not subscriptable either, so the statements after the draw of
  \<open>pos\<close> raise \<open>TypeError\<close> on every sample.
\<close>

definition Iterator_next ::
  "('g \<Rightarrow> nat \<Rightarrow> nat \<times> 'g) \<Rightarrow> (('q, 'd) PairwiseSample, 'g) Iterator \<Rightarrow>
   error + (('q, 'd) PairwiseRecord \<times> (('q, 'd) PairwiseSample, 'g) Iterator)" where
  "Iterator_next randint it =
     (case SkippingIterator_next list_next it of
        Inl e \<Rightarrow> Inl e
      | Inr (sample, it1) \<Rightarrow>
          (case random_choice randint (random it1) (ps_positives sample) of
             Inl e \<Rightarrow> Inl e
           | Inr (pos, g1) \<Rightarrow> Inl TypeError))"

text \<open>
  \<open>pairwise_iter\<close> returns \<open>SkippingIterator(_Iterator(self.random, self.dataset.iter()))\<close>:
  a \<open>SkippingIterator\<close> whose underlying iterator is the \<open>_Iterator\<close>.
\<close>

definition pairwise_iter ::
  "'g \<Rightarrow> ('q, 'd) PairwiseSample list \<Rightarrow> (('q, 'd) PairwiseSample, 'g) Iterator SkippingIterator" where
  "pairwise_iter g dataset = \<lparr>iterator = Iterator_init g dataset, position = 0\<rparr>"

subsection \<open>PairwiseModelBasedSampler\<close>

text \<open>
  \<open>sample(samples)\<close>: draws until the drawn document has a text. The loop need not end:
  \<open>None\<close> is the run that never returns. The result is \<open>Document(docid, text, score)\<close>.
\<close>

partial_function (option) sample ::
  "('g \<Rightarrow> nat \<Rightarrow> nat \<times> 'g) \<Rightarrow> (string \<Rightarrow> string option) \<Rightarrow> (string \<times> int \<times> real) list \<Rightarrow> 'g \<Rightarrow>
   (error + ((string \<times> string \<times> real) \<times> 'g)) option" where
  "sample randint document_text samples g =
     (case random_choice randint g samples of
        Inl e \<Rightarrow> Some (Inl e)
      | Inr ((docid, rel, score), g') \<Rightarrow>
          (case document_text docid of
             None \<Rightarrow> sample randint document_text samples g'
           | Some text \<Rightarrow> Some (Inr ((docid, text, score), g'))))"

declare sample.simps [code]

text \<open>
  Modelled from the spec: the class \<open>RandomSerializableIterator\<close> of \<open>xpmir.utils.iter\<close>,
  which is not among the sources: it runs the generator on its random state, and its
  state is that random state.
\<close>

record 'g RandomSerializableIterator =
  rs_random :: 'g

definition RandomSerializableIterator_state_dict :: "'g RandomSerializableIterator \<Rightarrow> 'g" where
  "RandomSerializableIterator_state_dict it = rs_random it"

definition RandomSerializableIterator_load_state_dict ::
  "'g RandomSerializableIterator \<Rightarrow> 'g \<Rightarrow> 'g RandomSerializableIterator" where
  "RandomSerializableIterator_load_state_dict it state = it\<lparr>rs_random := state\<rparr>"

text \<open>
  One pass of the loop of the generator \<open>iter(random)\<close> of \<open>pairwise_iter\<close>: a topic
  is drawn, then a positive and a negative document with \<open>sample\<close>. The generator
  draws from the \<open>random\<close> it is given and \<open>sample\<close> from \<open>self.random\<close>: the
  iterator is built on \<open>self.random\<close>, so both are the one random state.
\<close>

definition pairwise_iter_next ::
  "('g \<Rightarrow> nat \<Rightarrow> nat \<times> 'g) \<Rightarrow> (string \<Rightarrow> string option) \<Rightarrow>
   (string \<times> (string \<times> int \<times> real) list \<times> (string \<times> int \<times> real) list) list \<Rightarrow>
   'g RandomSerializableIterator \<Rightarrow>
   (error + ((string, string \<times> string \<times> real) PairwiseRecord \<times> 'g RandomSerializableIterator)) option" where
  "pairwise_iter_next randint document_text topics it =
     (case random_choice randint (rs_random it) topics of
        Inl e \<Rightarrow> Some (Inl e)
      | Inr ((title, positives, negatives), g1) \<Rightarrow>
          (case sample randint document_text positives g1 of
             None \<Rightarrow> None
           | Some (Inl e) \<Rightarrow> Some (Inl e)
           | Some (Inr (pos, g2)) \<Rightarrow>
               (case sample randint document_text negatives g2 of
                  None \<Rightarrow> None
                | Some (Inl e) \<Rightarrow> Some (Inl e)
                | Some (Inr (neg, g3)) \<Rightarrow>
                    Some (Inr (\<lparr>query = title, positive = pos, negative = neg\<rparr>,
                               it\<lparr>rs_random := g3\<rparr>)))))"

fun pairwise_iter_take ::
  "('g \<Rightarrow> nat \<Rightarrow> nat \<times> 'g) \<Rightarrow> (string \<Rightarrow> string option) \<Rightarrow>
   (string \<times> (string \<times> int \<times> real) list \<times> (string \<times> int \<times> real) list) list \<Rightarrow> nat \<Rightarrow>
   'g RandomSerializableIterator \<Rightarrow>
   (error + ((string, string \<times> string \<times> real) PairwiseRecord list \<times> 'g RandomSerializableIterator))
     option" where
  "pairwise_iter_take randint document_text topics 0 it = Some (Inr ([], it))"
| "pairwise_iter_take randint document_text topics (Suc n) it =
     (case pairwise_iter_next randint document_text topics it of
        None \<Rightarrow> None
      | Some (Inl e) \<Rightarrow> Some (Inl e)
      | Some (Inr (x, it1)) \<Rightarrow>
          (case pairwise_iter_take randint document_text topics n it1 of
             None \<Rightarrow> None
           | Some (Inl e) \<Rightarrow> Some (Inl e)
           | Some (Inr (xs, it2)) \<Rightarrow> Some (Inr (x # xs, it2))))"

text \<open>A small generator, a pool of topics and a document store, for the examples.\<close>

definition lcg :: "nat \<Rightarrow> nat \<Rightarrow> nat \<times> nat" where
  "lcg g n = (g mod n, (5 * g + 3) mod 16)"

definition topics_ex ::
  "(string \<times> (string \<times> int \<times> real) list \<times> (string \<times> int \<times> real) list) list" where
  "topics_ex =
     [(''t1'', [(''a'', 1, 0), (''b'', 1, 0)], [(''c'', 0, 2), (''d'', 0, 1)]),
      (''t2'', [(''b'', 2, 0)], [(''a'', 0, 3), (''d'', 0, 1)])]"

definition store_ex :: "string \<Rightarrow> string option" where
  "store_ex docid = (if docid = ''d'' then None else Some (''text of '' @ docid))"

text \<open>
  Two rows of a file of hard negatives, in the format of the export, and the dataset
  read from them.
\<close>

definition rows_ex :: "string list list" where
  "rows_ex =
     [[''q1'', ''positives:'', ''d1 d2'', ''negatives:'', ''d3 d4''],
      [''q2'', ''positives:'', ''d5'', ''negatives:'', ''d6'']]"

definition dataset_ex :: "(string, string) PairwiseSample list" where
  "dataset_ex =
     [\<lparr>ps_query = ''q1'', ps_positives = [''d1'', ''d2''], ps_negatives = [''d3'', ''d4'']\<rparr>,
      \<lparr>ps_query = ''q2'', ps_positives = [''d5''], ps_negatives = [''d6'']\<rparr>]"

section \<open>Properties of ValidationListener\<close>

subsection \<open>Auxiliary facts\<close>

lemma py_max_Max: "eps \<noteq> [] \<Longrightarrow> py_max eps = Inr (Max (set eps))"
  by (cases eps) (simp_all add: Max.set_eq_fold [symmetric])

lemma kept_epochs_configured:
  "\<forall>key \<in> fst ` set tp. key \<in> fst ` set ms \<Longrightarrow>
   kept_epochs ms tp =
     Inr (map (\<lambda>(key, entry). top_epoch entry)
            (filter (\<lambda>(key, entry). map_of ms key = Some True) tp))"
proof (induction tp)
  case Nil
  then show ?case by simp
next
  case (Cons p tp)
  obtain key entry where p: "p = (key, entry)" by (cases p)
  from Cons.prems have "key \<in> fst ` set ms" by (simp add: p)
  then obtain keep where k: "map_of ms key = Some keep"
    by (metis domD dom_map_of_conv_image_fst)
  from Cons have ih: "kept_epochs ms tp =
     Inr (map (\<lambda>(key, entry). top_epoch entry)
            (filter (\<lambda>(key, entry). map_of ms key = Some True) tp))" by simp
  show ?case by (simp add: p k ih)
qed

lemma update_top_distinct:
  "update_top se wu ctx means ms (tp, bp) = Inr (tp', bp') \<Longrightarrow>
   distinct (map fst tp) \<Longrightarrow> distinct (map fst bp) \<Longrightarrow>
   distinct (map fst tp') \<and> distinct (map fst bp')"
proof (induction ms arbitrary: tp bp)
  case Nil
  then show ?case by simp
next
  case (Cons p ms)
  obtain metric keep where p: "p = (metric, keep)" by (cases p)
  from Cons.prems(1) obtain v where v: "means metric = Some v"
    by (auto simp: p split: option.splits)
  show ?case
  proof (cases "se \<ge> wu \<and> (case map_of tp metric of None \<Rightarrow> True | Some topstate \<Rightarrow> v > top_value topstate)")
    case True
    let ?tp1 = "AList.update metric \<lparr>top_value = v, top_epoch = ctx\<rparr> tp"
    let ?bp1 = "if keep then AList.update metric ctx bp else bp"
    from Cons.prems(1) True have "update_top se wu ctx means ms (?tp1, ?bp1) = Inr (tp', bp')"
      by (simp add: p v)
    moreover have "distinct (map fst ?tp1)" "distinct (map fst ?bp1)"
      using Cons.prems(2,3) by (simp_all add: distinct_update)
    ultimately show ?thesis by (rule Cons.IH)
  next
    case False
    with Cons.prems(1) have "update_top se wu ctx means ms (tp, bp) = Inr (tp', bp')"
      by (simp add: p v)
    then show ?thesis using Cons.prems(2,3) by (rule Cons.IH)
  qed
qed

lemma update_top_inv:
  "update_top se wu ctx means ms (tp, bp) = Inr (tp', bp') \<Longrightarrow>
   (map_of tp' m = map_of tp m \<or> improved means ctx tp tp' m) \<and>
   (map_of bp' m = map_of bp m \<or> (map_of bp' m = Some ctx \<and> improved means ctx tp tp' m))"
proof (induction ms arbitrary: tp bp)
  case Nil
  then show ?case by simp
next
  case (Cons p ms)
  obtain metric keep where p: "p = (metric, keep)" by (cases p)
  from Cons.prems obtain v where v: "means metric = Some v"
    by (auto simp: p split: option.splits)
  show ?case
  proof (cases "se \<ge> wu \<and> (case map_of tp metric of None \<Rightarrow> True | Some topstate \<Rightarrow> v > top_value topstate)")
    case True
    let ?tp1 = "AList.update metric \<lparr>top_value = v, top_epoch = ctx\<rparr> tp"
    let ?bp1 = "if keep then AList.update metric ctx bp else bp"
    from Cons.prems True have "update_top se wu ctx means ms (?tp1, ?bp1) = Inr (tp', bp')"
      by (simp add: p v)
    note ih = Cons.IH [OF this]
    from True have g: "\<forall>old. map_of tp metric = Some old \<longrightarrow> top_value old < v"
      by (auto split: option.splits)
    have t1: "map_of ?tp1 m = (if m = metric then Some \<lparr>top_value = v, top_epoch = ctx\<rparr> else map_of tp m)"
      by (simp add: update_conv')
    have b1: "map_of ?bp1 m = (if m = metric \<and> keep then Some ctx else map_of bp m)"
      by (simp add: update_conv')
    have i1: "improved means ctx ?tp1 tp' m \<Longrightarrow> m \<noteq> metric \<and> improved means ctx tp tp' m"
      unfolding improved_def t1 using v by (auto split: if_splits)
    have i2: "m = metric \<Longrightarrow> map_of tp' m = map_of ?tp1 m \<Longrightarrow> improved means ctx tp tp' m"
      unfolding improved_def t1 using v g by simp
    show ?thesis
    proof (cases "m = metric")
      case True
      with ih i1 have e: "map_of tp' m = map_of ?tp1 m" and e2: "map_of bp' m = map_of ?bp1 m"
        by blast+
      from i2 [OF True e] have "improved means ctx tp tp' m" .
      with e2 b1 True show ?thesis by auto
    next
      case False
      with ih i1 t1 b1 show ?thesis by auto
    qed
  next
    case False
    with Cons.prems have "update_top se wu ctx means ms (tp, bp) = Inr (tp', bp')"
      by (simp add: p v)
    from Cons.IH [OF this] show ?thesis .
  qed
qed


lemma call_cases:
  assumes "ValidationListener_call l se means = Inr (s, l')"
  shows "l' = l \<or>
         (\<exists>tp bp. update_top se (warmup l) (context_epoch l) means (metrics l)
                     (top l, bestpath l) = Inr (tp, bp) \<and> top l' = tp \<and> bestpath l' = bp)"
  using assms
  by (auto simp: ValidationListener_call_def Let_def
           split: sum.splits LearnerListenerStatus.splits if_splits prod.splits)

subsection \<open>Main results\<close>

text \<open>
  C10. With an empty best-table, \<open>should_stop\<close> answers \<open>DONT_STOP\<close> at every epoch,
  whatever \<open>early_stop\<close> is; the table is empty after an \<open>initialize\<close> that could not
  load the persisted state.
\<close>

theorem should_stop_empty_top:
  "(top l = [] \<longrightarrow> should_stop l e = Inr DONT_STOP) \<and>
   should_stop (ValidationListener_initialize l None) e = Inr DONT_STOP"
  by (simp add: should_stop_def ValidationListener_initialize_def)

theorem should_stop_empty_top_witness:
  "top (listener0\<lparr>early_stop := 3\<rparr>) = [] \<and>
   should_stop (listener0\<lparr>early_stop := 3\<rparr>) 1000 = Inr DONT_STOP"
  using should_stop_empty_top [of "listener0\<lparr>early_stop := 3\<rparr>" 1000]
  by (simp add: listener0_def)

text \<open>
  C9. \<open>__validate__\<close> passes exactly when \<open>early_stop % validation_interval\<close> evaluates to
  0; this includes \<open>early_stop = 0\<close> for every non-zero interval. When \<open>early_stop\<close> is
  not a multiple of \<open>validation_interval\<close> construction fails: with the assertion when
  the interval is not 0, with the division error of \<open>%\<close> when it is.
\<close>

theorem validate_multiple:
  "(validate l = Inr () \<longleftrightarrow> py_mod (early_stop l) (validation_interval l) = Inr 0) \<and>
   (\<not> validation_interval l dvd early_stop l \<longrightarrow>
      validate l = Inl (if validation_interval l = 0 then ZeroDivisionError else AssertionError)) \<and>
   (validation_interval l \<noteq> 0 \<longrightarrow> validate (l\<lparr>early_stop := 0\<rparr>) = Inr ())"
  by (auto simp: validate_def py_mod_def mod_eq_0_iff_dvd)

theorem validate_multiple_witness:
  "\<not> validation_interval (listener0\<lparr>validation_interval := 2, early_stop := 3\<rparr>)
       dvd early_stop (listener0\<lparr>validation_interval := 2, early_stop := 3\<rparr>) \<and>
   validate (listener0\<lparr>validation_interval := 2, early_stop := 3\<rparr>) = Inl AssertionError \<and>
   validate (listener0\<lparr>validation_interval := 2, early_stop := 0\<rparr>) = Inr ()"
  using validate_multiple [of "listener0\<lparr>validation_interval := 2, early_stop := 3\<rparr>"]
  by (simp add: listener0_def)

text \<open>
  C1 (as amended). Let the effective epoch be \<open>e\<close>, or the epoch of the context when
  \<open>e = 0\<close>. When every recorded metric is a key of \<open>metrics\<close> and a best is recorded for
  at least one metric whose flag is true, \<open>should_stop e\<close> returns \<open>STOP\<close> if
  \<open>early_stop > 0\<close> and the effective epoch minus the greatest recorded best epoch of the
  flagged metrics is at least \<open>early_stop\<close>, and \<open>DONT_STOP\<close> otherwise. With
  \<open>validation_interval = 2\<close>, \<open>early_stop = 4\<close> and the best of \<open>map\<close> at epoch 4,
  \<open>should_stop 8\<close> is \<open>STOP\<close> and \<open>should_stop 6\<close> is \<open>DONT_STOP\<close>.
\<close>

theorem should_stop_rule:
  "(fst ` set (top l) \<subseteq> fst ` set (metrics l) \<and> kept_best_epochs l \<noteq> [] \<longrightarrow>
    should_stop l e =
      Inr (if early_stop l > 0 \<and>
              (if e \<noteq> 0 then e else context_epoch l) - Max (set (kept_best_epochs l))
                \<ge> early_stop l
           then STOP else DONT_STOP)) \<and>
   should_stop listener_map4 8 = Inr STOP \<and>
   should_stop listener_map4 6 = Inr DONT_STOP"
proof (intro conjI impI)
  assume ab: "fst ` set (top l) \<subseteq> fst ` set (metrics l) \<and> kept_best_epochs l \<noteq> []"
  then have a: "\<forall>key \<in> fst ` set (top l). key \<in> fst ` set (metrics l)"
    and b: "kept_best_epochs l \<noteq> []" by blast+
  from b have t: "top l \<noteq> []" by (auto simp: kept_best_epochs_def)
  have k: "kept_epochs (metrics l) (top l) = Inr (kept_best_epochs l)"
    using kept_epochs_configured [OF a] by (simp add: kept_best_epochs_def)
  show "should_stop l e =
     Inr (if early_stop l > 0 \<and>
             (if e \<noteq> 0 then e else context_epoch l) - Max (set (kept_best_epochs l))
               \<ge> early_stop l
          then STOP else DONT_STOP)"
    by (simp add: should_stop_def t k py_max_Max [OF b] Let_def)
next
  show "should_stop listener_map4 8 = Inr STOP"
    by (simp add: listener_map4_def listener0_def should_stop_def)
next
  show "should_stop listener_map4 6 = Inr DONT_STOP"
    by (simp add: listener_map4_def listener0_def should_stop_def)
qed

theorem should_stop_rule_witness:
  "fst ` set (top listener_map4) \<subseteq> fst ` set (metrics listener_map4) \<and>
   kept_best_epochs listener_map4 \<noteq> [] \<and>
   should_stop listener_map4 9 = Inr STOP \<and>
   should_stop (listener_map4\<lparr>context_epoch := 7\<rparr>) 0 = Inr DONT_STOP"
  using should_stop_rule [of listener_map4 9]
    should_stop_rule [of "listener_map4\<lparr>context_epoch := 7\<rparr>" 0]
  by (simp add: listener_map4_def listener0_def kept_best_epochs_def)

text \<open>
  The rule read with the argument \<open>e\<close> itself fails at \<open>e = 0\<close>: a best is recorded,
  \<open>should_stop 0\<close> returns \<open>STOP\<close>, and 0 minus the best epoch is below
  \<open>early_stop\<close>. And with a best recorded only for a metric that is not kept,
  \<open>should_stop\<close> returns neither status: \<open>max\<close> raises on the empty generator.
\<close>

theorem should_stop_epoch0_counterexample:
  "top listener_epoch1 \<noteq> [] \<and>
   should_stop listener_epoch1 0 = Inr STOP \<and>
   \<not> (early_stop listener_epoch1 > 0 \<and>
      0 - Max (set (kept_best_epochs listener_epoch1)) \<ge> early_stop listener_epoch1) \<and>
   top listener_unkept \<noteq> [] \<and>
   should_stop listener_unkept 5 = Inl ValueError"
  by (simp add: listener_epoch1_def listener_unkept_def listener0_def should_stop_def
        kept_best_epochs_def)

text \<open>
  C3. The tables \<open>top\<close> and \<open>bestpath\<close> keep one entry per metric through \<open>__call__\<close>.
  An entry of \<open>top\<close> is either left as it was or replaced by one of strictly greater
  value; a mean that is not greater than the stored value (an equal one included) leaves
  the entry as it was; a best checkpoint is rewritten only together with such a
  replacement. With means 0.5 then 0.3 the table stays at 0.5 with the first epoch, a
  following 0.6 overwrites it, and a following 0.5 does not.
\<close>

theorem call_best_table:
  "(distinct (map fst (top l)) \<and> distinct (map fst (bestpath l)) \<and>
    ValidationListener_call l se means = Inr (s, l') \<longrightarrow>
      distinct (map fst (top l')) \<and> distinct (map fst (bestpath l')) \<and>
      (\<forall>m old. map_of (top l) m = Some old \<longrightarrow>
          (\<exists>new. map_of (top l') m = Some new \<and> (new = old \<or> top_value old < top_value new))) \<and>
      (\<forall>m old v. map_of (top l) m = Some old \<and> means m = Some v \<and> v \<le> top_value old \<longrightarrow>
          map_of (top l') m = Some old) \<and>
      (\<forall>m. map_of (bestpath l') m \<noteq> map_of (bestpath l) m \<longrightarrow>
          (\<exists>new. map_of (top l') m = Some new \<and> map_of (bestpath l') m = Some (top_epoch new) \<and>
                 (\<forall>old. map_of (top l) m = Some old \<longrightarrow> top_value old < top_value new)))) \<and>
   ValidationListener_call (listener0\<lparr>context_epoch := 1\<rparr>) 1 [''map'' \<mapsto> 0.5]
     = Inr (DONT_STOP, validated_a) \<and>
   ValidationListener_call (validated_a\<lparr>context_epoch := 2\<rparr>) 2 [''map'' \<mapsto> 0.3]
     = Inr (DONT_STOP, validated_a\<lparr>context_epoch := 2\<rparr>) \<and>
   ValidationListener_call (validated_a\<lparr>context_epoch := 3\<rparr>) 3 [''map'' \<mapsto> 0.6]
     = Inr (DONT_STOP, validated_b) \<and>
   ValidationListener_call (validated_a\<lparr>context_epoch := 3\<rparr>) 3 [''map'' \<mapsto> 0.5]
     = Inr (DONT_STOP, validated_a\<lparr>context_epoch := 3\<rparr>)"
proof (rule conjI)
  show "ValidationListener_call (listener0\<lparr>context_epoch := 1\<rparr>) 1 [''map'' \<mapsto> 0.5]
     = Inr (DONT_STOP, validated_a) \<and>
   ValidationListener_call (validated_a\<lparr>context_epoch := 2\<rparr>) 2 [''map'' \<mapsto> 0.3]
     = Inr (DONT_STOP, validated_a\<lparr>context_epoch := 2\<rparr>) \<and>
   ValidationListener_call (validated_a\<lparr>context_epoch := 3\<rparr>) 3 [''map'' \<mapsto> 0.6]
     = Inr (DONT_STOP, validated_b) \<and>
   ValidationListener_call (validated_a\<lparr>context_epoch := 3\<rparr>) 3 [''map'' \<mapsto> 0.5]
     = Inr (DONT_STOP, validated_a\<lparr>context_epoch := 3\<rparr>)"
    by (simp add: ValidationListener_call_def listener0_def validated_a_def validated_b_def
          should_stop_def py_mod_def)
next
  show "distinct (map fst (top l)) \<and> distinct (map fst (bestpath l)) \<and>
    ValidationListener_call l se means = Inr (s, l') \<longrightarrow>
      distinct (map fst (top l')) \<and> distinct (map fst (bestpath l')) \<and>
      (\<forall>m old. map_of (top l) m = Some old \<longrightarrow>
          (\<exists>new. map_of (top l') m = Some new \<and> (new = old \<or> top_value old < top_value new))) \<and>
      (\<forall>m old v. map_of (top l) m = Some old \<and> means m = Some v \<and> v \<le> top_value old \<longrightarrow>
          map_of (top l') m = Some old) \<and>
      (\<forall>m. map_of (bestpath l') m \<noteq> map_of (bestpath l) m \<longrightarrow>
          (\<exists>new. map_of (top l') m = Some new \<and> map_of (bestpath l') m = Some (top_epoch new) \<and>
                 (\<forall>old. map_of (top l) m = Some old \<longrightarrow> top_value old < top_value new)))"
  proof (intro impI, elim conjE)
    assume dt: "distinct (map fst (top l))" and db: "distinct (map fst (bestpath l))"
      and c: "ValidationListener_call l se means = Inr (s, l')"
    let ?ctx = "context_epoch l"
    from call_cases [OF c] show
       "distinct (map fst (top l')) \<and> distinct (map fst (bestpath l')) \<and>
        (\<forall>m old. map_of (top l) m = Some old \<longrightarrow>
            (\<exists>new. map_of (top l') m = Some new \<and> (new = old \<or> top_value old < top_value new))) \<and>
        (\<forall>m old v. map_of (top l) m = Some old \<and> means m = Some v \<and> v \<le> top_value old \<longrightarrow>
            map_of (top l') m = Some old) \<and>
        (\<forall>m. map_of (bestpath l') m \<noteq> map_of (bestpath l) m \<longrightarrow>
            (\<exists>new. map_of (top l') m = Some new \<and> map_of (bestpath l') m = Some (top_epoch new) \<and>
                   (\<forall>old. map_of (top l) m = Some old \<longrightarrow> top_value old < top_value new)))"
    proof
      assume "l' = l"
      with dt db show ?thesis by simp
    next
      assume "\<exists>tp bp. update_top se (warmup l) ?ctx means (metrics l) (top l, bestpath l) = Inr (tp, bp)
                \<and> top l' = tp \<and> bestpath l' = bp"
      then have u: "update_top se (warmup l) ?ctx means (metrics l) (top l, bestpath l)
                      = Inr (top l', bestpath l')" by auto
      note d = update_top_distinct [OF u dt db]
      note i = update_top_inv [OF u, unfolded improved_def]
      have a: "\<forall>m old. map_of (top l) m = Some old \<longrightarrow>
            (\<exists>new. map_of (top l') m = Some new \<and> (new = old \<or> top_value old < top_value new))"
      proof (intro allI impI)
        fix m old assume o: "map_of (top l) m = Some old"
        from i [of m] o show "\<exists>new. map_of (top l') m = Some new \<and> (new = old \<or> top_value old < top_value new)"
          by auto
      qed
      have b: "\<forall>m old v. map_of (top l) m = Some old \<and> means m = Some v \<and> v \<le> top_value old \<longrightarrow>
            map_of (top l') m = Some old"
      proof (intro allI impI, elim conjE)
        fix m old v assume o: "map_of (top l) m = Some old" "means m = Some v" "v \<le> top_value old"
        from i [of m] o show "map_of (top l') m = Some old" by auto
      qed
      have e: "\<forall>m. map_of (bestpath l') m \<noteq> map_of (bestpath l) m \<longrightarrow>
            (\<exists>new. map_of (top l') m = Some new \<and> map_of (bestpath l') m = Some (top_epoch new) \<and>
                   (\<forall>old. map_of (top l) m = Some old \<longrightarrow> top_value old < top_value new))"
      proof (intro allI impI)
        fix m assume o: "map_of (bestpath l') m \<noteq> map_of (bestpath l) m"
        from i [of m] o show "\<exists>new. map_of (top l') m = Some new \<and> map_of (bestpath l') m = Some (top_epoch new) \<and>
                   (\<forall>old. map_of (top l) m = Some old \<longrightarrow> top_value old < top_value new)"
          by auto
      qed
      from d a b e show ?thesis by blast
    qed
  qed
qed

theorem call_best_table_witness:
  "distinct (map fst (top (validated_a\<lparr>context_epoch := 3\<rparr>))) \<and>
   distinct (map fst (bestpath (validated_a\<lparr>context_epoch := 3\<rparr>))) \<and>
   ValidationListener_call (validated_a\<lparr>context_epoch := 3\<rparr>) 3 [''map'' \<mapsto> 0.6]
     = Inr (DONT_STOP, validated_b) \<and>
   distinct (map fst (top validated_b)) \<and>
   (\<exists>new. map_of (top validated_b) ''map'' = Some new \<and> 0.5 < top_value new)"
  using call_best_table [of "validated_a\<lparr>context_epoch := 3\<rparr>" 3 "[''map'' \<mapsto> 0.6]"
          DONT_STOP validated_b]
  by (simp add: validated_a_def validated_b_def listener0_def)

section \<open>Properties of NegativeSamplerListener\<close>

lemma call_objects_kept:
  "take (length objects) (snd (NegativeSamplerListener_call initial n l e objects)) = objects \<and>
   length objects \<le> length (snd (NegativeSamplerListener_call initial n l e objects))"
  by (simp add: NegativeSamplerListener_call_def PairwiseListSamplers_pairwise_iter_def
        set_current_def Let_def split: sum.splits)

lemma run_objects_kept:
  "take (length objects) (snd (NegativeSamplerListener_run initial n l es objects)) = objects \<and>
   length objects \<le> length (snd (NegativeSamplerListener_run initial n l es objects))"
proof (induction es arbitrary: l objects)
  case Nil
  show ?case by simp
next
  case (Cons e es)
  obtain r objects1 where c: "NegativeSamplerListener_call initial n l e objects = (r, objects1)"
    by (cases "NegativeSamplerListener_call initial n l e objects")
  from call_objects_kept [of objects initial n l e] c
  have k: "take (length objects) objects1 = objects" and le: "length objects \<le> length objects1"
    by simp_all
  show ?case
  proof (cases r)
    case (Inl err)
    with c k le show ?thesis by simp
  next
    case (Inr t)
    obtain status l1 calls where t: "t = (status, l1, calls)" by (cases t)
    let ?rest = "NegativeSamplerListener_run initial n l1 es objects1"
    from Cons.IH [of objects1 l1]
    have k1: "take (length objects1) (snd ?rest) = objects1"
      and le1: "length objects1 \<le> length (snd ?rest)" by simp_all
    have "take (length objects) (snd ?rest) = take (length objects) (take (length objects1) (snd ?rest))"
      using le by (simp add: min_def)
    also have "\<dots> = objects" using k1 k by simp
    finally have k2: "take (length objects) (snd ?rest) = objects" .
    have s: "snd (NegativeSamplerListener_run initial n l (e # es) objects) = snd ?rest"
      using c Inr t by (simp split: prod.splits sum.splits)
    from k2 le le1 show ?thesis unfolding s by simp
  qed
qed

text \<open>
  C7. Whatever the run, every iterator object that exists when the run starts is the
  same when it ends: the listener changes the index of no iterator that anything holds.
  On a \<open>PairwiseListSamplers\<close> with two sub-samplers whose iterator, of index 0, exists
  before the run, with \<open>sampling_interval = 2\<close> and the epochs 1 to 4: at epoch 2 the
  listener sets its own index to 1 and calls \<open>set_current(1)\<close> on a new object, the
  second of the list afterwards; the first object keeps index 0; at epochs 2 and 4
  \<open>update()\<close> is called on sub-sampler 1.
\<close>

theorem set_current_on_new_iterator:
  "take (length objects) (snd (NegativeSamplerListener_run initial n l es objects)) = objects \<and>
   NegativeSamplerListener_run 0 2
     (NegativeSamplerListener_initialize \<lparr>sampling_interval = 2, change = False, sampler_index = 0\<rparr>)
     [1, 2, 3, 4] [\<lparr>current = 0\<rparr>]
   = (Inr (\<lparr>sampling_interval = 2, change = False, sampler_index = 1\<rparr>,
           [(2, SetCurrent 1), (2, Update 1), (4, Update 1)]),
      [\<lparr>current = 0\<rparr>, \<lparr>current = 1\<rparr>])"
proof
  show "take (length objects) (snd (NegativeSamplerListener_run initial n l es objects)) = objects"
    using run_objects_kept [of objects initial n l es] by simp
next
  show "NegativeSamplerListener_run 0 2
     (NegativeSamplerListener_initialize \<lparr>sampling_interval = 2, change = False, sampler_index = 0\<rparr>)
     [1, 2, 3, 4] [\<lparr>current = 0\<rparr>]
   = (Inr (\<lparr>sampling_interval = 2, change = False, sampler_index = 1\<rparr>,
           [(2, SetCurrent 1), (2, Update 1), (4, Update 1)]),
      [\<lparr>current = 0\<rparr>, \<lparr>current = 1\<rparr>])"
    by (simp add: NegativeSamplerListener_initialize_def NegativeSamplerListener_call_def
          PairwiseListSamplers_pairwise_iter_def set_current_def py_mod_def py_index_def)
qed

section \<open>Properties of PairwiseInBatchNegativesSampler\<close>

lemma eye_nth: "i < n \<Longrightarrow> j < n \<Longrightarrow> eye n ! i ! j = (if i = j then 1 else 0)"
  by (simp add: eye_def)

lemma rel_length: "length (in_batch_relevances B) = B"
  by (simp add: in_batch_relevances_def cat1_def eye_def zeros_def)

lemma rel_row: "i < B \<Longrightarrow> in_batch_relevances B ! i =
    map (\<lambda>j. if i = j then 1 else 0) [0..<B] @ replicate B 0"
  by (simp add: in_batch_relevances_def cat1_def eye_def zeros_def)

lemma rel_entry: "i < B \<Longrightarrow> j < 2 * B \<Longrightarrow> in_batch_relevances B ! i ! j = (if j = i then 1 else 0)"
  by (auto simp add: rel_row nth_append)

lemma rel3: "in_batch_relevances 3 = [[1,0,0,0,0,0],[0,1,0,0,0,0],[0,0,1,0,0,0]]"
  by (simp add: in_batch_relevances_def cat1_def eye_def zeros_def upt_rec numeral_eq_Suc)

lemma take_suspended:
  "gen it = Suspended m \<Longrightarrow> batchwise_take B n it = (bs, it') \<Longrightarrow>
   (\<forall>b \<in> set bs. relevances b = m) \<and> matrices_computed it' = matrices_computed it \<and> gen it' = Suspended m"
proof (induction n arbitrary: it bs it')
  case 0
  then show ?case by auto
next
  case (Suc n)
  obtain b it1 where n1: "batchwise_next B it = (b, it1)" by (cases "batchwise_next B it")
  obtain bs2 it2 where t: "batchwise_take B n it1 = (bs2, it2)" by (cases "batchwise_take B n it1")
  from n1 Suc.prems(1) have g: "gen it1 = Suspended m" "relevances b = m" "matrices_computed it1 = matrices_computed it"
    by (auto simp: batchwise_next_def Let_def)
  from Suc.prems(2) n1 t have e: "bs = b # bs2" "it' = it2" by simp_all
  from Suc.IH [OF g(1) t] g e show ?case by simp
qed

lemma take_created:
  "gen it = Created \<Longrightarrow> batchwise_take B n it = (bs, it') \<Longrightarrow>
   (\<forall>b \<in> set bs. relevances b = in_batch_relevances B) \<and> length bs = n \<and>
   matrices_computed it' = matrices_computed it + (if n = 0 then 0 else 1)"
proof (cases n)
  case 0
  assume "batchwise_take B n it = (bs, it')"
  with 0 show ?thesis by auto
next
  case (Suc k)
  assume c: "gen it = Created" and tk: "batchwise_take B n it = (bs, it')"
  obtain b it1 where n1: "batchwise_next B it = (b, it1)" by (cases "batchwise_next B it")
  obtain bs2 it2 where t: "batchwise_take B k it1 = (bs2, it2)" by (cases "batchwise_take B k it1")
  from n1 c have g: "gen it1 = Suspended (in_batch_relevances B)" "relevances b = in_batch_relevances B"
     "matrices_computed it1 = matrices_computed it + 1"
    by (auto simp: batchwise_next_def Let_def)
  from tk n1 t Suc have e: "bs = b # bs2" "it' = it2" by simp_all
  have "length bs2 = k" using t 
  proof (induction k arbitrary: it1 bs2 it2)
    case 0 then show ?case by simp
  next
    case (Suc k) then show ?case by (auto simp: Let_def split: prod.splits)
  qed
  with take_suspended [OF g(1) t] g e Suc show ?thesis by simp
qed

text \<open>
  C8. Every batch of \<open>batchwise_iter(B)\<close> carries the matrix computed before the loop.
  It has \<open>B\<close> rows of \<open>2 * B\<close> entries, entry \<open>(i, j)\<close> being 1 when \<open>j = i\<close> and 0
  otherwise. For \<open>B = 3\<close> it is the 3 by 6 matrix below. However many batches are drawn,
  the matrix is computed once, at the first.
\<close>

theorem in_batch_relevance_matrix:
  "(batchwise_take B n (batchwise_iter records) = (bs, it') \<longrightarrow>
      length bs = n \<and> (\<forall>b \<in> set bs. relevances b = in_batch_relevances B) \<and>
      matrices_computed it' = (if n = 0 then 0 else 1)) \<and>
   length (in_batch_relevances B) = B \<and>
   (\<forall>i < B. length (in_batch_relevances B ! i) = 2 * B \<and>
       (\<forall>j < 2 * B. in_batch_relevances B ! i ! j = (if j = i then 1 else 0))) \<and>
   in_batch_relevances 3 = [[1, 0, 0, 0, 0, 0], [0, 1, 0, 0, 0, 0], [0, 0, 1, 0, 0, 0]]"
proof (intro conjI impI allI)
  assume t: "batchwise_take B n (batchwise_iter records) = (bs, it')"
  have c: "gen (batchwise_iter records) = Created"
      "matrices_computed (batchwise_iter records) = 0"
    by (simp_all add: batchwise_iter_def)
  from take_created [OF c(1) t] c(2)
  show "length bs = n" "\<forall>b \<in> set bs. relevances b = in_batch_relevances B"
    "matrices_computed it' = (if n = 0 then 0 else 1)"
    by simp_all
next
  show "length (in_batch_relevances B) = B" by (rule rel_length)
next
  fix i assume "i < B"
  then show "length (in_batch_relevances B ! i) = 2 * B" by (simp add: rel_row)
next
  fix i j assume "i < B" "j < 2 * B"
  then show "in_batch_relevances B ! i ! j = (if j = i then 1 else 0)" by (rule rel_entry)
next
  show "in_batch_relevances 3 = [[1, 0, 0, 0, 0, 0], [0, 1, 0, 0, 0, 0], [0, 0, 1, 0, 0, 0]]"
    by (rule rel3)
qed

theorem in_batch_relevance_matrix_witness:
  "batchwise_take 2 2 (batchwise_iter [record_of 1, record_of 2, record_of 3]) =
     ([\<lparr>queries = [1, 2], documents = [11, 12, 21, 22], relevances = in_batch_relevances 2\<rparr>,
       \<lparr>queries = [3], documents = [13, 23], relevances = in_batch_relevances 2\<rparr>],
      \<lparr>gen = Suspended (in_batch_relevances 2), pair_iter = [], matrices_computed = 1\<rparr>) \<and>
   in_batch_relevances 2 = [[1, 0, 0, 0], [0, 1, 0, 0]] \<and>
   matrices_computed \<lparr>gen = Suspended (in_batch_relevances 2), pair_iter = [] :: (nat, nat) PairwiseRecord list,
      matrices_computed = 1\<rparr> = 1"
  using in_batch_relevance_matrix [of 2 2 "[record_of 1, record_of 2, record_of 3]"
     "[\<lparr>queries = [1, 2], documents = [11, 12, 21, 22], relevances = in_batch_relevances 2\<rparr>,
       \<lparr>queries = [3], documents = [13, 23], relevances = in_batch_relevances 2\<rparr>]"
     "\<lparr>gen = Suspended (in_batch_relevances 2), pair_iter = [], matrices_computed = 1\<rparr>"]
  by (simp add: batchwise_iter_def batchwise_next_def record_of_def numeral_2_eq_2
        in_batch_relevances_def cat1_def eye_def zeros_def upt_rec)

section \<open>Properties of the retrieval-based samplers\<close>

lemma positives_filter:
  "itertopics_positives items acc = acc @ map (\<lambda>(docno, rel). (docno, rel, 0)) (filter (\<lambda>(docno, rel). rel > 0) items)"
  by (induction items acc rule: itertopics_positives.induct) auto

lemma negatives_filter:
  "itertopics_negatives qa sds acc =
     acc @ map (\<lambda>(docid, score). (docid, get_rel qa docid, score))
             (filter (\<lambda>(docid, score). \<not> get_rel qa docid > 0) sds)"
  by (induction qa sds acc rule: itertopics_negatives.induct) (auto simp: Let_def)

lemma split_filter:
  "execute_split qa sds (ps, ns) =
     (ps @ filter (\<lambda>d. get_rel qa d > 0) (map fst sds),
      ns @ filter (\<lambda>d. \<not> get_rel qa d > 0) (map fst sds))"
  by (induction qa sds "(ps, ns)" arbitrary: ps ns rule: execute_split.induct) auto

text \<open>
  C4 (as amended). In \<open>_itertopics\<close> the positives of a query are its judged
  documents of relevance greater than 0, in the order of the judgements, and the
  negatives are the retrieved documents whose judged relevance (0 when not judged) is
  not greater than 0, in rank order. In \<open>execute\<close> both lists are taken from the
  retrieved documents: the positives are those of judged relevance greater than 0, the
  negatives are all the others. With judgements \<open>{d1: 1, d2: 0, d3: -1}\<close> and
  retrieved documents \<open>d1, d2, d4\<close> the positives are \<open>[d1]\<close> and the negatives
  \<open>[d2, d4]\<close>.
\<close>

theorem positive_negative_split:
  "(itertopics_query assessments retrieve q = Inr (Some (t, positives, negatives)) \<longrightarrow>
      (\<exists>qa. map_of assessments (fst q) = Some qa \<and>
         positives = map (\<lambda>(docno, rel). (docno, rel, 0)) (filter (\<lambda>(docno, rel). rel > 0) qa) \<and>
         negatives = map (\<lambda>(docid, score). (docid, get_rel qa docid, score))
                       (filter (\<lambda>(docid, score). \<not> get_rel qa docid > 0) (retrieve (snd q))))) \<and>
   (execute_split qa sds ([], []) = (ps, ns) \<longrightarrow>
      ps = filter (\<lambda>docid. get_rel qa docid > 0) (map fst sds) \<and>
      ns = filter (\<lambda>docid. \<not> get_rel qa docid > 0) (map fst sds)) \<and>
   itertopics_query [(''q'', judgements_ex)] (\<lambda>text. retrieved_ex) (''q'', ''text'')
     = Inr (Some (''text'', [(''d1'', 1, 0)], [(''d2'', 0, 2), (''d4'', 0, 1)])) \<and>
   execute_split judgements_ex retrieved_ex ([], []) = ([''d1''], [''d2'', ''d4''])"
proof (intro conjI impI)
  assume a: "itertopics_query assessments retrieve q = Inr (Some (t, positives, negatives))"
  then obtain qa where qa: "map_of assessments (fst q) = Some qa"
    by (auto simp: itertopics_query_def split: option.splits)
  from a qa have "positives = itertopics_positives qa []"
    "negatives = itertopics_negatives qa (retrieve (snd q)) []"
    by (auto simp: itertopics_query_def Let_def split: if_splits)
  with qa show "\<exists>qa. map_of assessments (fst q) = Some qa \<and>
         positives = map (\<lambda>(docno, rel). (docno, rel, 0)) (filter (\<lambda>(docno, rel). rel > 0) qa) \<and>
         negatives = map (\<lambda>(docid, score). (docid, get_rel qa docid, score))
                       (filter (\<lambda>(docid, score). \<not> get_rel qa docid > 0) (retrieve (snd q)))"
    by (simp add: positives_filter negatives_filter)
next
  assume "execute_split qa sds ([], []) = (ps, ns)"
  then show "ps = filter (\<lambda>docid. get_rel qa docid > 0) (map fst sds)"
    "ns = filter (\<lambda>docid. \<not> get_rel qa docid > 0) (map fst sds)"
    by (simp_all add: split_filter)
next
  show "itertopics_query [(''q'', judgements_ex)] (\<lambda>text. retrieved_ex) (''q'', ''text'')
     = Inr (Some (''text'', [(''d1'', 1, 0)], [(''d2'', 0, 2), (''d4'', 0, 1)]))"
    by (simp add: itertopics_query_def judgements_ex_def retrieved_ex_def get_rel_def)
next
  show "execute_split judgements_ex retrieved_ex ([], []) = ([''d1''], [''d2'', ''d4''])"
    by (simp add: judgements_ex_def retrieved_ex_def get_rel_def)
qed

theorem positive_negative_split_witness:
  "itertopics_query (read_assessments qrels_two) retrieve_two (''q1'', ''first query'')
     = Inr (Some (''first query'', [(''d1'', 1, 0)], [(''d2'', 0, 1)])) \<and>
   execute_split [(''d1'', 1), (''d2'', 0)] (retrieve_two ''first query'') ([], [])
     = ([''d1''], [''d2'']) \<and>
   [''d1''] = filter (\<lambda>docid. get_rel [(''d1'', 1), (''d2'', 0)] docid > 0)
                (map fst (retrieve_two ''first query'')) \<and>
   (\<exists>qa. map_of (read_assessments qrels_two) ''q1'' = Some qa \<and>
      [(''d2'', 0, 1)] = map (\<lambda>(docid, score). (docid, get_rel qa docid, score))
                       (filter (\<lambda>(docid, score). \<not> get_rel qa docid > 0) (retrieve_two ''first query'')))"
  using positive_negative_split [of "read_assessments qrels_two" retrieve_two
      "(''q1'', ''first query'')" "''first query''" "[(''d1'', 1, 0)]" "[(''d2'', 0, 1)]"
      "[(''d1'', 1), (''d2'', 0)]" "retrieve_two ''first query''" "[''d1'']" "[''d2'']"]
  by (simp add: itertopics_query_def read_assessments_def read_doc2rel_def qrels_two_def
        retrieve_two_def get_rel_def)

text \<open>
  A judged document that is not positive and was not retrieved is not a negative
  candidate: \<open>d3\<close> of the example, judged \<open>-1\<close>, is in neither list.
\<close>

theorem judged_unretrieved_counterexample:
  "execute_split judgements_ex retrieved_ex ([], []) = ([''d1''], [''d2'', ''d4'']) \<and>
   itertopics_negatives judgements_ex retrieved_ex [] = [(''d2'', 0, 2), (''d4'', 0, 1)] \<and>
   map_of judgements_ex ''d3'' = Some (- 1) \<and>
   ''d3'' \<notin> set [''d1''] \<and>
   ''d3'' \<notin> set [''d2'', ''d4'']"
  by (simp add: judgements_ex_def retrieved_ex_def get_rel_def)

text \<open>
  C6. On two assessed topics \<open>q1\<close> and \<open>q2\<close>, both exported, each string written
  starts with \<open>q2\<close>, the id of the last assessment read, also the one written for
  query \<open>q1\<close>; the fields that follow are the literal \<open>positives:\<close>, the positive ids
  joined by spaces, the literal \<open>negatives:\<close> and the negative ids joined by spaces. No
  string ends with a newline.
\<close>

theorem execute_writes_last_qrels_qid:
  "execute qrels_two topics_two retrieve_two =
     Inr ([''q2'' @ tab @ ''positives:'' @ tab @ ''d1'' @ tab @ ''negatives:'' @ tab @ ''d2'',
           ''q2'' @ tab @ ''positives:'' @ tab @ ''d5'' @ tab @ ''negatives:'' @ tab @ ''d6''], 0)"
  by (simp add: execute_def execute_query_def read_assessments_def read_doc2rel_def
        qrels_two_def topics_two_def retrieve_two_def get_rel_def)

section \<open>Properties of train_batch\<close>

lemma train_batches_abort:
  "i < length bs \<Longrightarrow> train_batch (bs ! i) = Inl e \<Longrightarrow>
   (\<And>j. j < i \<Longrightarrow> \<exists>loss. train_batch (bs ! j) = Inr loss) \<Longrightarrow>
   train_batches train_batch bs = (take (Suc i) bs, Inl e)"
proof (induction bs arbitrary: i)
  case Nil
  then show ?case by simp
next
  case (Cons b bs)
  show ?case
  proof (cases i)
    case 0
    with Cons.prems(2) show ?thesis by simp
  next
    case (Suc k)
    from Cons.prems(3) [of 0] Suc obtain loss where l: "train_batch b = Inr loss" by auto
    have "train_batches train_batch bs = (take (Suc k) bs, Inl e)"
    proof (rule Cons.IH)
      show "k < length bs" using Cons.prems(1) Suc by simp
      show "train_batch (bs ! k) = Inl e" using Cons.prems(2) Suc by simp
      fix j assume "j < k"
      then show "\<exists>loss. train_batch (bs ! j) = Inr loss"
        using Cons.prems(3) [of "Suc j"] Suc by simp
    qed
    then show ?thesis using l Suc by simp
  qed
qed

lemma list_ex_concat: "list_ex (list_ex P) (map (\<lambda>i. [t ! i, t ! (n + i)]) [0..<n]) \<longleftrightarrow>
   (\<exists>i<n. P (t ! i) \<or> P (t ! (n + i)))"
  by (auto simp: list_ex_iff)

lemma reshape_any:
  assumes "length t = 2 * n"
  shows "(\<exists>i<n. P (t ! i) \<or> P (t ! (n + i))) \<longleftrightarrow> list_ex P t"
proof
  assume "\<exists>i<n. P (t ! i) \<or> P (t ! (n + i))"
  then obtain i where "i < n" "P (t ! i) \<or> P (t ! (n + i))" by blast
  moreover from \<open>i < n\<close> assms have "t ! i \<in> set t" "t ! (n + i) \<in> set t" by simp_all
  ultimately show "list_ex P t" by (auto simp: list_ex_iff)
next
  assume "list_ex P t"
  then obtain k where k: "k < length t" "P (t ! k)" by (auto simp: list_ex_iff in_set_conv_nth)
  show "\<exists>i<n. P (t ! i) \<or> P (t ! (n + i))"
  proof (cases "k < n")
    case True
    with k show ?thesis by blast
  next
    case False
    with k assms have "k - n < n" "n + (k - n) = k" by simp_all
    with k show ?thesis by metis
  qed
qed


lemma distillation_abort_iff:
  assumes "length t = 2 * n"
  shows "reshape_2_T n t = Inr scores \<Longrightarrow>
     (list_ex (list_ex isnan) scores \<or> list_ex (list_ex isinf) scores) \<longleftrightarrow>
     (list_ex isnan t \<or> list_ex isinf t)"
  using assms reshape_any [OF assms, of isnan] reshape_any [OF assms, of isinf]
  by (auto simp: reshape_2_T_def list_ex_concat)

text \<open>
  C5. \<open>PointwiseTrainer.train_batch\<close> ends with \<open>SystemExit(1)\<close> exactly when a score
  of the batch is NaN or infinite, and then returns no loss;
  \<open>DistillationPairwiseTrainer.train_batch\<close> on such scores ends with \<open>SystemExit(1)\<close>
  too (or with the error of \<open>reshape\<close>, when the ranker returned the wrong number of
  scores). A run whose step fails on a batch for the first time has run the step on the
  batches up to that one and on no later batch, and ends with that exception. With NaN
  on batch 3 of 10, the step is run on batches 1, 2 and 3 only.
\<close>

theorem nan_aborts_run:
  "(PointwiseTrainer_train_batch ranker lossfn batch_relevances batch = Inl (SystemExit 1) \<longleftrightarrow>
      (\<exists>s \<in> set (ranker batch). isnan s \<or> isinf s)) \<and>
   ((\<exists>s \<in> set (ranker' (map (\<lambda>s. \<lparr>query = sample_query s,
                                      positive = fst (fst (sample_documents s)),
                                      negative = fst (snd (sample_documents s))\<rparr>) samples)).
        isnan s \<or> isinf s) \<longrightarrow>
    DistillationPairwiseTrainer_train_batch ranker' dhooks phooks pthooks samples
      \<in> {Inl (SystemExit 1), Inl RuntimeError}) \<and>
   (i < length batches \<and> train_batch (batches ! i) = Inl e \<and>
    (\<forall>j < i. \<exists>loss. train_batch (batches ! j) = Inr loss) \<longrightarrow>
      train_batches train_batch batches = (take (Suc i) batches, Inl e)) \<and>
   train_batches (PointwiseTrainer_train_batch ranker_nan3 mean_loss (\<lambda>b. [1, 0]))
       [1, 2, 3, 4, 5, 6, 7, 8, 9, 10]
     = ([1, 2, 3], Inl (SystemExit 1))"
proof (intro conjI impI)
  show "PointwiseTrainer_train_batch ranker lossfn batch_relevances batch = Inl (SystemExit 1) \<longleftrightarrow>
      (\<exists>s \<in> set (ranker batch). isnan s \<or> isinf s)"
    by (auto simp: PointwiseTrainer_train_batch_def Let_def list_ex_iff)
next
  let ?records = "map (\<lambda>s. \<lparr>query = sample_query s,
                                      positive = fst (fst (sample_documents s)),
                                      negative = fst (snd (sample_documents s))\<rparr>) samples"
  assume a: "\<exists>s \<in> set (ranker' ?records). isnan s \<or> isinf s"
  show "DistillationPairwiseTrainer_train_batch ranker' dhooks phooks pthooks samples
      \<in> {Inl (SystemExit 1), Inl RuntimeError}"
  proof (cases "length (ranker' ?records) = 2 * length ?records")
    case True
    then obtain scores where r: "reshape_2_T (length ?records) (ranker' ?records) = Inr scores"
      by (simp add: reshape_2_T_def)
    from a have "list_ex isnan (ranker' ?records) \<or> list_ex isinf (ranker' ?records)"
      by (auto simp: list_ex_iff)
    with distillation_abort_iff [OF True r]
    have "list_ex (list_ex isnan) scores \<or> list_ex (list_ex isinf) scores" by simp
    with r show ?thesis
      by (simp add: DistillationPairwiseTrainer_train_batch_def Let_def)
  next
    case False
    then have "reshape_2_T (length ?records) (ranker' ?records) = Inl RuntimeError"
      by (simp add: reshape_2_T_def)
    then show ?thesis
      by (simp add: DistillationPairwiseTrainer_train_batch_def Let_def)
  qed
next
  assume "i < length batches \<and> train_batch (batches ! i) = Inl e \<and>
    (\<forall>j < i. \<exists>loss. train_batch (batches ! j) = Inr loss)"
  then show "train_batches train_batch batches = (take (Suc i) batches, Inl e)"
    by (intro train_batches_abort) auto
next
  show "train_batches (PointwiseTrainer_train_batch ranker_nan3 mean_loss (\<lambda>b. [1, 0]))
       [1, 2, 3, 4, 5, 6, 7, 8, 9, 10]
     = ([1, 2, 3], Inl (SystemExit 1))"
    by (simp add: PointwiseTrainer_train_batch_def ranker_nan3_def mean_loss_def)
qed

theorem nan_aborts_run_witness:
  "(2::nat) < length [7, 3, 5, 8 :: nat] \<and>
   PointwiseTrainer_train_batch (\<lambda>b. if b = (5::nat) then [PosInf] else [Finite 2]) mean_loss (\<lambda>b. [1])
      ([7, 3, 5, 8] ! 2) = Inl (SystemExit 1) \<and>
   train_batches
     (PointwiseTrainer_train_batch (\<lambda>b. if b = (5::nat) then [PosInf] else [Finite 2]) mean_loss (\<lambda>b. [1]))
     [7, 3, 5, 8] = ([7, 3, 5], Inl (SystemExit 1))"
  using nan_aborts_run [of "\<lambda>b. if b = (5::nat) then [PosInf] else [Finite 2]" mean_loss "\<lambda>b. [1]" 5
     "\<lambda>r. []" "[]" "[]" "[]" "[]" 2 "[7, 3, 5, 8]"
     "PointwiseTrainer_train_batch (\<lambda>b. if b = (5::nat) then [PosInf] else [Finite 2]) mean_loss (\<lambda>b. [1])"
     "SystemExit 1"]
  by (simp add: PointwiseTrainer_train_batch_def mean_loss_def less_Suc_eq)

section \<open>Properties of the serializable iterators\<close>

lemma advance_list_next: "n \<le> length xs \<Longrightarrow> advance list_next n xs = Inr (drop n xs)"
proof (induction n arbitrary: xs)
  case 0
  then show ?case by simp
next
  case (Suc n)
  then obtain y ys where "xs = y # ys" by (cases xs) auto
  with Suc show ?case by (simp add: list_next_def)
qed

text \<open>
  The state of an \<open>_Iterator\<close> that stands at its position in the dataset, loaded into
  a fresh iterator over the same dataset, gives that iterator back.
\<close>

lemma Iterator_restore:
  "iterator it1 = drop (position it1) source \<and> position it1 \<le> length source \<Longrightarrow>
   Iterator_load_state_dict (Iterator_init g' source) (Iterator_state_dict it1) = Inr it1"
  by (cases it1)
     (simp add: Iterator_load_state_dict_def Iterator_init_def Iterator_state_dict_def
        SkippingIterator_load_state_dict_def SkippingIterator_state_dict_def advance_list_next)

text \<open>
  C2. \<open>_Iterator.next\<close> returns no item: whatever the random state and the iterator,
  it raises, so a draw of one item or more raises too. On the dataset read from two rows
  of a file of hard negatives the first \<open>next\<close> raises \<open>TypeError\<close>, on the
  \<open>_Iterator\<close> and on the iterator that \<open>pairwise_iter\<close> returns.
\<close>

theorem iterator_next_raises:
  "(\<exists>e. Iterator_next randint it = Inl e) \<and>
   (\<exists>e. take_n (Iterator_next randint) (Suc n) it = Inl e) \<and>
   map sample_of_row rows_ex = map Inr dataset_ex \<and>
   Iterator_next lcg (Iterator_init 7 dataset_ex) = Inl TypeError \<and>
   take_n (Iterator_next lcg) 1 (Iterator_init 7 dataset_ex) = Inl TypeError \<and>
   SkippingIterator_next (Iterator_next lcg) (pairwise_iter 7 dataset_ex) = Inl TypeError"
proof (intro conjI)
  show r: "\<exists>e. Iterator_next randint it = Inl e"
    by (auto simp: Iterator_next_def split: sum.splits prod.splits)
  then show "\<exists>e. take_n (Iterator_next randint) (Suc n) it = Inl e"
    by auto
  show "map sample_of_row rows_ex = map Inr dataset_ex"
    by (simp add: sample_of_row_def rows_ex_def dataset_ex_def)
  show n: "Iterator_next lcg (Iterator_init 7 dataset_ex) = Inl TypeError"
    by (simp add: Iterator_next_def SkippingIterator_next_def list_next_def Iterator_init_def
          dataset_ex_def random_choice_def lcg_def)
  then show "take_n (Iterator_next lcg) 1 (Iterator_init 7 dataset_ex) = Inl TypeError"
    by simp
  from n show "SkippingIterator_next (Iterator_next lcg) (pairwise_iter 7 dataset_ex) = Inl TypeError"
    by (simp add: SkippingIterator_next_def pairwise_iter_def)
qed

text \<open>
  The iterator of \<open>PairwiseModelBasedSampler.pairwise_iter\<close>, whose state is the random
  state: drawing \<open>2 * n\<close> items without interruption succeeds with the items \<open>zs\<close>
  exactly when drawing \<open>n\<close> items, taking the state, loading it into a fresh iterator
  and drawing \<open>n\<close> more succeeds with items \<open>xs\<close> and \<open>ys\<close> such that
  \<open>zs = xs @ ys\<close>.
\<close>

lemma pairwise_iter_take_add:
  "pairwise_iter_take r dt tp (m + n) it =
     (case pairwise_iter_take r dt tp m it of
        None \<Rightarrow> None
      | Some (Inl e) \<Rightarrow> Some (Inl e)
      | Some (Inr (xs, it1)) \<Rightarrow>
          (case pairwise_iter_take r dt tp n it1 of
             None \<Rightarrow> None
           | Some (Inl e) \<Rightarrow> Some (Inl e)
           | Some (Inr (ys, it2)) \<Rightarrow> Some (Inr (xs @ ys, it2))))"
  by (induction m arbitrary: it) (auto split: option.splits sum.splits prod.splits)

lemma RandomSerializableIterator_restore:
  "RandomSerializableIterator_load_state_dict fresh (RandomSerializableIterator_state_dict it1) = it1"
  by (cases fresh, cases it1)
     (simp add: RandomSerializableIterator_load_state_dict_def
        RandomSerializableIterator_state_dict_def)

lemma pairwise_model_based_snapshot_restore:
  "pairwise_iter_take randint document_text topics (n + n) \<lparr>rs_random = h\<rparr>
      = Some (Inr (zs, jt2)) \<longleftrightarrow>
      (\<exists>xs ys jt1.
         pairwise_iter_take randint document_text topics n \<lparr>rs_random = h\<rparr>
           = Some (Inr (xs, jt1)) \<and>
         pairwise_iter_take randint document_text topics n
           (RandomSerializableIterator_load_state_dict \<lparr>rs_random = h'\<rparr>
              (RandomSerializableIterator_state_dict jt1))
           = Some (Inr (ys, jt2)) \<and>
         zs = xs @ ys)"
  by (auto simp: pairwise_iter_take_add RandomSerializableIterator_restore
        split: option.splits sum.splits prod.splits)

lemma pairwise_model_based_example:
  "pairwise_iter_take lcg store_ex topics_ex 2 \<lparr>rs_random = 2\<rparr>
     = Some (Inr ([\<lparr>query = ''t1'', positive = (''b'', ''text of b'', 0),
                     negative = (''c'', ''text of c'', 2)\<rparr>,
                   \<lparr>query = ''t2'', positive = (''b'', ''text of b'', 0),
                     negative = (''a'', ''text of a'', 3)\<rparr>],
                  \<lparr>rs_random = 11\<rparr>)) \<and>
   pairwise_iter_take lcg store_ex topics_ex 2
     (RandomSerializableIterator_load_state_dict \<lparr>rs_random = 0\<rparr>
        (RandomSerializableIterator_state_dict \<lparr>rs_random = 11\<rparr>))
     = Some (Inr ([\<lparr>query = ''t2'', positive = (''b'', ''text of b'', 0),
                     negative = (''a'', ''text of a'', 3)\<rparr>,
                   \<lparr>query = ''t2'', positive = (''b'', ''text of b'', 0),
                     negative = (''a'', ''text of a'', 3)\<rparr>],
                  \<lparr>rs_random = 3\<rparr>)) \<and>
   pairwise_iter_take lcg store_ex topics_ex 4 \<lparr>rs_random = 2\<rparr>
     = Some (Inr ([\<lparr>query = ''t1'', positive = (''b'', ''text of b'', 0),
                     negative = (''c'', ''text of c'', 2)\<rparr>,
                   \<lparr>query = ''t2'', positive = (''b'', ''text of b'', 0),
                     negative = (''a'', ''text of a'', 3)\<rparr>,
                   \<lparr>query = ''t2'', positive = (''b'', ''text of b'', 0),
                     negative = (''a'', ''text of a'', 3)\<rparr>,
                   \<lparr>query = ''t2'', positive = (''b'', ''text of b'', 0),
                     negative = (''a'', ''text of a'', 3)\<rparr>],
                  \<lparr>rs_random = 3\<rparr>))"
  by code_simp

end
